theory Spec2Isabelle
  imports Complex_Main "HOL-Library.Stream" "HOL-Library.Multiset"
begin

section \<open>Plain JavaScript values and \<open>Utils.deepClone\<close>\<close>

text \<open>
  The history engine stores snapshots whose \<open>objects\<close> member is typed \<open>unknown[]\<close>:
  plain JavaScript values as \<open>serialize\<close> produces them. They are modelled by the
  datatype \<open>json\<close>; an object is its list of own enumerable properties, in order.
  Numbers are idealised as reals (no NaN, no rounding).
\<close>

datatype json =
    JNull
  | JUndefined
  | JBool bool
  | JNum real
  | JStr string
  | JDate real
  | JArr "json list"
  | JObj "(string \<times> json) list"

text \<open>
  \<^verbatim>\<open>
  deepClone<T>(obj: T): T {
      if (obj === null || typeof obj !== 'object') return obj;
      if (obj instanceof Date) return new Date(obj) as unknown as T;
      if (obj instanceof Array) return obj.map(item => this.deepClone(item)) as unknown as T;
      if (obj instanceof Object) {
          const copy: Record<string, unknown> = {};
          for (const key in obj) {
              if (Object.prototype.hasOwnProperty.call(obj, key)) {
                  copy[key] = this.deepClone((obj as Record<string, unknown>)[key]);
              }
          }
          return copy as T;
      }
      return obj;
  }
  \<close>
\<close>

primrec deepClone :: "json \<Rightarrow> json" where
  "deepClone JNull = JNull"
| "deepClone JUndefined = JUndefined"
| "deepClone (JBool b) = JBool b"
| "deepClone (JNum n) = JNum n"
| "deepClone (JStr s) = JStr s"
| "deepClone (JDate t) = JDate t"
| "deepClone (JArr items) = JArr (map deepClone items)"
| "deepClone (JObj props) = JObj (map (map_prod (\<lambda>key. key) deepClone) props)"

section \<open>History engine (\<open>history.ts\<close>)\<close>

text \<open>
  \<open>HistoryState\<close> is the interface \<open>{objects: unknown[]; selectedIds: string[]}\<close>.
  A value of this type is a non-null object, so the \<open>|| null\<close> after \<open>pop()\<close> in
  \<open>undo\<close> and \<open>redo\<close> never replaces a popped state.
\<close>

record HistoryState =
  hs_objects :: "json list"
  hs_selectedIds :: "string list"

text \<open>\<open>Utils.deepClone\<close> at type \<open>HistoryState\<close>: the object branch copies both
  members, each through the array branch.\<close>

definition deepClone_state :: "HistoryState \<Rightarrow> HistoryState" where
  "deepClone_state state =
     \<lparr>hs_objects = map deepClone (hs_objects state),
      hs_selectedIds = map (\<lambda>s. s) (hs_selectedIds state)\<rparr>"

text \<open>The stacks are JavaScript arrays: index 0 first, \<open>push\<close>/\<open>pop\<close> at the end,
  \<open>shift\<close> at the front.\<close>

record HistoryManager =
  maxSize :: int
  undoStack :: "HistoryState list"
  redoStack :: "HistoryState list"
  isApplying :: bool

definition new_HistoryManager :: "int \<Rightarrow> HistoryManager" where
  "new_HistoryManager m =
     \<lparr>maxSize = m, undoStack = [], redoStack = [], isApplying = False\<rparr>"

definition push :: "HistoryManager \<Rightarrow> HistoryState \<Rightarrow> HistoryManager" where
  "push h state =
     (if isApplying h then h
      else
        let h1 = h\<lparr>redoStack := []\<rparr>;
            h2 = h1\<lparr>undoStack := undoStack h1 @ [deepClone_state state]\<rparr>
        in if int (length (undoStack h2)) > maxSize h2
           then h2\<lparr>undoStack := tl (undoStack h2)\<rparr>
           else h2)"

definition undo :: "HistoryManager \<Rightarrow> HistoryState \<Rightarrow> HistoryState option \<times> HistoryManager" where
  "undo h currentState =
     (if length (undoStack h) = 0 then (None, h)
      else
        let h1 = h\<lparr>redoStack := redoStack h @ [deepClone_state currentState]\<rparr>
        in (Some (last (undoStack h1)), h1\<lparr>undoStack := butlast (undoStack h1)\<rparr>))"

definition redo :: "HistoryManager \<Rightarrow> HistoryState option \<times> HistoryManager" where
  "redo h =
     (if length (redoStack h) = 0 then (None, h)
      else (Some (last (redoStack h)), h\<lparr>redoStack := butlast (redoStack h)\<rparr>))"

definition canUndo :: "HistoryManager \<Rightarrow> bool" where
  "canUndo h = (length (undoStack h) > 0)"

definition canRedo :: "HistoryManager \<Rightarrow> bool" where
  "canRedo h = (length (redoStack h) > 0)"

definition clear :: "HistoryManager \<Rightarrow> HistoryManager" where
  "clear h = h\<lparr>undoStack := [], redoStack := []\<rparr>"

definition beginApply :: "HistoryManager \<Rightarrow> HistoryManager" where
  "beginApply h = h\<lparr>isApplying := True\<rparr>"

definition endApply :: "HistoryManager \<Rightarrow> HistoryManager" where
  "endApply h = h\<lparr>isApplying := False\<rparr>"

text \<open>Pushing a sequence of states, one call of \<open>push\<close> per state, in order.\<close>

definition push_all :: "HistoryManager \<Rightarrow> HistoryState list \<Rightarrow> HistoryManager" where
  "push_all h states = foldl push h states"

section \<open>JavaScript operators on optional properties\<close>

text \<open>
  An optional property is an \<open>option\<close>: \<open>None\<close> is \<open>undefined\<close> (the property is
  absent). A property that may also hold \<open>null\<close> is an option of an option, where
  \<open>Some None\<close> is \<open>null\<close>. The constructors read their options with \<open>||\<close>,
  \<open>!== undefined ? :\<close> and \<open>??\<close>; on numbers \<open>0\<close> is falsy, on strings the empty
  string is.
\<close>

definition or_num :: "real option \<Rightarrow> real \<Rightarrow> real" where
  "or_num a d = (case a of None \<Rightarrow> d | Some v \<Rightarrow> if v = 0 then d else v)"

definition or_str :: "string option \<Rightarrow> string \<Rightarrow> string" where
  "or_str a d = (case a of None \<Rightarrow> d | Some s \<Rightarrow> if s = [] then d else s)"

definition or_bool :: "bool option \<Rightarrow> bool \<Rightarrow> bool" where
  "or_bool a d = (case a of None \<Rightarrow> d | Some b \<Rightarrow> if b then b else d)"

text \<open>\<open>a || d\<close> for a string property that may be \<open>null\<close>.\<close>

definition or_nstr :: "string option option \<Rightarrow> string \<Rightarrow> string" where
  "or_nstr a d = (case a of Some (Some s) \<Rightarrow> if s = [] then d else s | _ \<Rightarrow> d)"

text \<open>\<open>a || null\<close> for a string property that may be \<open>null\<close>.\<close>

definition or_null :: "string option option \<Rightarrow> string option" where
  "or_null a = (case a of Some (Some s) \<Rightarrow> if s = [] then None else Some s | _ \<Rightarrow> None)"

text \<open>\<open>a !== undefined ? a : d\<close>.\<close>

definition defined_or :: "'a option \<Rightarrow> 'a \<Rightarrow> 'a" where
  "defined_or a d = (case a of None \<Rightarrow> d | Some v \<Rightarrow> v)"

text \<open>\<open>a ?? d\<close> for a property that is a number or absent.\<close>

definition nullish :: "real option \<Rightarrow> real \<Rightarrow> real" where
  "nullish a d = (case a of None \<Rightarrow> d | Some v \<Rightarrow> v)"

text \<open>\<open>a || d\<close> for a computed number.\<close>

definition or_zero :: "real \<Rightarrow> real \<Rightarrow> real" where
  "or_zero a d = (if a = 0 then d else a)"

text \<open>
  \<open>Math.min\<close> and \<open>Math.max\<close> folded over a non-empty array from \<open>Infinity\<close> and
  \<open>-Infinity\<close>: the first element replaces the infinite start value.
\<close>

definition min_of :: "real list \<Rightarrow> real" where
  "min_of vs = foldl min (hd vs) (tl vs)"

definition max_of :: "real list \<Rightarrow> real" where
  "max_of vs = foldl max (hd vs) (tl vs)"

section \<open>Identifiers\<close>

text \<open>
  \<open>Utils.generateId\<close> builds a string from \<open>Math.random()\<close> and \<open>Date.now()\<close>. The
  model draws the generated strings from a stream that stands for the outcomes of the
  successive calls; a function that may generate an identifier takes the stream and
  returns the rest of it.
\<close>

type_synonym idgen = "string stream"

definition generateId :: "idgen \<Rightarrow> string \<times> idgen" where
  "generateId g = (shd g, stl g)"

text \<open>\<open>type.charAt(0).toUpperCase() + type.slice(1)\<close>, on ASCII letters.\<close>

definition toUpperCase :: "char \<Rightarrow> char" where
  "toUpperCase c =
     (let n = (of_char c :: nat) in if 97 \<le> n \<and> n \<le> 122 then char_of (n - 32) else c)"

fun capitalize :: "string \<Rightarrow> string" where
  "capitalize [] = []"
| "capitalize (c # cs) = toUpperCase c # cs"

section \<open>Geometry values (\<open>utils.ts\<close>)\<close>

record Point =
  pt_x :: real
  pt_y :: real

record Rect =
  rect_x :: real
  rect_y :: real
  rect_width :: real
  rect_height :: real

section \<open>Gradients, shadows, constraints (\<open>objects.ts\<close>)\<close>

datatype GradientType = Linear | Radial

record GradientStop =
  stop_offset :: real
  stop_color :: string

record GradientData =
  gd_type :: "GradientType option"
  gd_angle :: "real option"
  gd_stops :: "GradientStop list option"
  gd_centerX :: "real option"
  gd_centerY :: "real option"
  gd_radiusX :: "real option"
  gd_radiusY :: "real option"

record Gradient =
  gr_type :: GradientType
  gr_angle :: real
  gr_stops :: "GradientStop list"
  gr_centerX :: real
  gr_centerY :: real
  gr_radiusX :: real
  gr_radiusY :: real

definition new_Gradient :: "GradientData \<Rightarrow> Gradient" where
  "new_Gradient options =
     \<lparr>gr_type = defined_or (gd_type options) Linear,
      gr_angle = or_num (gd_angle options) 0,
      gr_stops = defined_or (gd_stops options)
         [\<lparr>stop_offset = 0, stop_color = ''#5B5BFF''\<rparr>,
          \<lparr>stop_offset = 1, stop_color = ''#FF5B5B''\<rparr>],
      gr_centerX = or_num (gd_centerX options) 0.5,
      gr_centerY = or_num (gd_centerY options) 0.5,
      gr_radiusX = or_num (gd_radiusX options) 0.5,
      gr_radiusY = or_num (gd_radiusY options) 0.5\<rparr>"

definition Gradient_serialize :: "Gradient \<Rightarrow> GradientData" where
  "Gradient_serialize this =
     \<lparr>gd_type = Some (gr_type this),
      gd_angle = Some (gr_angle this),
      gd_stops = Some (gr_stops this),
      gd_centerX = Some (gr_centerX this),
      gd_centerY = Some (gr_centerY this),
      gd_radiusX = Some (gr_radiusX this),
      gd_radiusY = Some (gr_radiusY this)\<rparr>"

definition Gradient_deserialize :: "GradientData option \<Rightarrow> Gradient option" where
  "Gradient_deserialize data = (case data of None \<Rightarrow> None | Some d \<Rightarrow> Some (new_Gradient d))"

datatype ShadowType = Drop | Inner

record ShadowData =
  sd_type :: "ShadowType option"
  sd_color :: "string option"
  sd_offsetX :: "real option"
  sd_offsetY :: "real option"
  sd_blur :: "real option"
  sd_spread :: "real option"
  sd_visible :: "bool option"

record Shadow =
  sh_type :: ShadowType
  sh_color :: string
  sh_offsetX :: real
  sh_offsetY :: real
  sh_blur :: real
  sh_spread :: real
  sh_visible :: bool

definition new_Shadow :: "ShadowData \<Rightarrow> Shadow" where
  "new_Shadow options =
     \<lparr>sh_type = defined_or (sd_type options) Drop,
      sh_color = or_str (sd_color options) ''rgba(0,0,0,0.25)'',
      sh_offsetX = or_num (sd_offsetX options) 0,
      sh_offsetY = or_num (sd_offsetY options) 4,
      sh_blur = or_num (sd_blur options) 8,
      sh_spread = or_num (sd_spread options) 0,
      sh_visible = defined_or (sd_visible options) True\<rparr>"

definition Shadow_serialize :: "Shadow \<Rightarrow> ShadowData" where
  "Shadow_serialize this =
     \<lparr>sd_type = Some (sh_type this),
      sd_color = Some (sh_color this),
      sd_offsetX = Some (sh_offsetX this),
      sd_offsetY = Some (sh_offsetY this),
      sd_blur = Some (sh_blur this),
      sd_spread = Some (sh_spread this),
      sd_visible = Some (sh_visible this)\<rparr>"

definition Shadow_deserialize :: "ShadowData option \<Rightarrow> Shadow option" where
  "Shadow_deserialize data = (case data of None \<Rightarrow> None | Some d \<Rightarrow> Some (new_Shadow d))"

datatype HorizontalConstraint = H_left | H_right | H_center | H_scale | H_left_right

datatype VerticalConstraint = V_top | V_bottom | V_center | V_scale | V_top_bottom

record ConstraintsData =
  cd_horizontal :: "HorizontalConstraint option"
  cd_vertical :: "VerticalConstraint option"
  cd_originalX :: "real option"
  cd_originalY :: "real option"
  cd_originalWidth :: "real option"
  cd_originalHeight :: "real option"
  cd_originalParentWidth :: "real option"
  cd_originalParentHeight :: "real option"

record Constraints =
  co_horizontal :: HorizontalConstraint
  co_vertical :: VerticalConstraint
  co_originalX :: real
  co_originalY :: real
  co_originalWidth :: real
  co_originalHeight :: real
  co_originalParentWidth :: real
  co_originalParentHeight :: real

definition new_Constraints :: "ConstraintsData \<Rightarrow> Constraints" where
  "new_Constraints options =
     \<lparr>co_horizontal = defined_or (cd_horizontal options) H_left,
      co_vertical = defined_or (cd_vertical options) V_top,
      co_originalX = or_num (cd_originalX options) 0,
      co_originalY = or_num (cd_originalY options) 0,
      co_originalWidth = or_num (cd_originalWidth options) 0,
      co_originalHeight = or_num (cd_originalHeight options) 0,
      co_originalParentWidth = or_num (cd_originalParentWidth options) 0,
      co_originalParentHeight = or_num (cd_originalParentHeight options) 0\<rparr>"

definition Constraints_serialize :: "Constraints \<Rightarrow> ConstraintsData" where
  "Constraints_serialize this =
     \<lparr>cd_horizontal = Some (co_horizontal this),
      cd_vertical = Some (co_vertical this),
      cd_originalX = Some (co_originalX this),
      cd_originalY = Some (co_originalY this),
      cd_originalWidth = Some (co_originalWidth this),
      cd_originalHeight = Some (co_originalHeight this),
      cd_originalParentWidth = Some (co_originalParentWidth this),
      cd_originalParentHeight = Some (co_originalParentHeight this)\<rparr>"

definition Constraints_deserialize :: "ConstraintsData option \<Rightarrow> Constraints option" where
  "Constraints_deserialize data =
     (case data of None \<Rightarrow> None | Some d \<Rightarrow> Some (new_Constraints d))"

section \<open>Auto layout settings (\<open>objects.ts\<close>)\<close>

datatype Direction = Horizontal | Vertical

datatype PrimaryAxisAlign = P_start | P_center | P_end | P_space_between

datatype CounterAxisAlign = C_start | C_center | C_end | C_stretch

datatype Sizing = Fixed | Hug

record AutoLayoutData =
  ald_direction :: "Direction option"
  ald_primaryAxisAlign :: "PrimaryAxisAlign option"
  ald_counterAxisAlign :: "CounterAxisAlign option"
  ald_spacing :: "real option"
  ald_paddingTop :: "real option"
  ald_paddingRight :: "real option"
  ald_paddingBottom :: "real option"
  ald_paddingLeft :: "real option"
  ald_primaryAxisSizing :: "Sizing option"
  ald_counterAxisSizing :: "Sizing option"

record AutoLayout =
  direction :: Direction
  primaryAxisAlign :: PrimaryAxisAlign
  counterAxisAlign :: CounterAxisAlign
  spacing :: real
  paddingTop :: real
  paddingRight :: real
  paddingBottom :: real
  paddingLeft :: real
  primaryAxisSizing :: Sizing
  counterAxisSizing :: Sizing

definition new_AutoLayout :: "AutoLayoutData \<Rightarrow> AutoLayout" where
  "new_AutoLayout options =
     \<lparr>direction = defined_or (ald_direction options) Horizontal,
      primaryAxisAlign = defined_or (ald_primaryAxisAlign options) P_start,
      counterAxisAlign = defined_or (ald_counterAxisAlign options) C_start,
      spacing = or_num (ald_spacing options) 10,
      paddingTop = or_num (ald_paddingTop options) 0,
      paddingRight = or_num (ald_paddingRight options) 0,
      paddingBottom = or_num (ald_paddingBottom options) 0,
      paddingLeft = or_num (ald_paddingLeft options) 0,
      primaryAxisSizing = defined_or (ald_primaryAxisSizing options) Hug,
      counterAxisSizing = defined_or (ald_counterAxisSizing options) Hug\<rparr>"

definition AutoLayout_serialize :: "AutoLayout \<Rightarrow> AutoLayoutData" where
  "AutoLayout_serialize this =
     \<lparr>ald_direction = Some (direction this),
      ald_primaryAxisAlign = Some (primaryAxisAlign this),
      ald_counterAxisAlign = Some (counterAxisAlign this),
      ald_spacing = Some (spacing this),
      ald_paddingTop = Some (paddingTop this),
      ald_paddingRight = Some (paddingRight this),
      ald_paddingBottom = Some (paddingBottom this),
      ald_paddingLeft = Some (paddingLeft this),
      ald_primaryAxisSizing = Some (primaryAxisSizing this),
      ald_counterAxisSizing = Some (counterAxisSizing this)\<rparr>"

definition AutoLayout_deserialize :: "AutoLayoutData option \<Rightarrow> AutoLayout option" where
  "AutoLayout_deserialize data =
     (case data of None \<Rightarrow> None | Some d \<Rightarrow> Some (new_AutoLayout d))"

section \<open>Design objects (\<open>objects.ts\<close>)\<close>

record PathPoint =
  pp_x :: real
  pp_y :: real
  handleIn :: "Point option"
  handleOut :: "Point option"

datatype ImageFit = Cover | Contain | Fill | NoFit

text \<open>
  A reference to a live object (the \<open>masterComponent\<close> of an instance, the members of a
  component's \<open>instances\<close> set) is an address. Two references are the same object when
  the addresses are equal.
\<close>

type_synonym ref = nat

subsection \<open>The plain form: \<open>DesignObjectData\<close> and its extensions\<close>

text \<open>
  \<open>DesignObjectData\<close> and the interfaces extending it (\<open>RectangleData\<close>, \<open>LineData\<close>,
  \<open>TextObjectData\<close>, \<open>FrameData\<close>, \<open>PathData\<close>, \<open>GroupData\<close>, \<open>ComponentData\<close>,
  \<open>ComponentInstanceData\<close>, \<open>ImageObjectData\<close>) describe one plain object with optional
  properties; only \<open>type\<close> is required. The record holds every property but \<open>children\<close>,
  which the datatype \<open>DesignObjectData\<close> adds. The constructors receive the same
  shape as their \<open>options\<close> and never read \<open>options.type\<close>.
\<close>

record DesignObjectFields =
  d_id :: "string option"
  d_type :: string
  d_name :: "string option"
  d_x :: "real option"
  d_y :: "real option"
  d_width :: "real option"
  d_height :: "real option"
  d_rotation :: "real option"
  d_fill :: "string option option"
  d_fillOpacity :: "real option"
  d_stroke :: "string option option"
  d_strokeWidth :: "real option"
  d_strokeOpacity :: "real option"
  d_visible :: "bool option"
  d_locked :: "bool option"
  d_opacity :: "real option"
  d_blendMode :: "string option"
  d_gradient :: "GradientData option option"
  d_shadows :: "ShadowData list option"
  d_blur :: "real option"
  d_constraints :: "ConstraintsData option option"
  d_cornerRadius :: "real option"
  d_x1 :: "real option"
  d_y1 :: "real option"
  d_x2 :: "real option"
  d_y2 :: "real option"
  d_text :: "string option"
  d_fontFamily :: "string option"
  d_fontSize :: "real option"
  d_fontWeight :: "string option"
  d_lineHeight :: "real option"
  d_textAlign :: "string option"
  d_clipContent :: "bool option"
  d_autoLayout :: "AutoLayoutData option option"
  d_points :: "PathPoint list option"
  d_closed :: "bool option"
  d_componentId :: "string option"
  d_description :: "string option"
  d_overrides :: "(string \<times> bool) list option"
  d_masterComponent :: "ref option"
  d_src :: "string option"
  d_imageData :: "string option option"
  d_fit :: "ImageFit option"

datatype DesignObjectData = Data DesignObjectFields "DesignObjectData list option"

text \<open>The object literal \<open>{type: ty}\<close>: every other property absent.\<close>

definition no_fields :: "string \<Rightarrow> DesignObjectFields" where
  "no_fields ty =
     \<lparr>d_id = None, d_type = ty, d_name = None, d_x = None, d_y = None, d_width = None,
      d_height = None, d_rotation = None, d_fill = None, d_fillOpacity = None,
      d_stroke = None, d_strokeWidth = None, d_strokeOpacity = None, d_visible = None,
      d_locked = None, d_opacity = None, d_blendMode = None, d_gradient = None,
      d_shadows = None, d_blur = None, d_constraints = None, d_cornerRadius = None,
      d_x1 = None, d_y1 = None, d_x2 = None, d_y2 = None, d_text = None,
      d_fontFamily = None, d_fontSize = None, d_fontWeight = None, d_lineHeight = None,
      d_textAlign = None, d_clipContent = None, d_autoLayout = None, d_points = None,
      d_closed = None, d_componentId = None, d_description = None, d_overrides = None,
      d_masterComponent = None, d_src = None, d_imageData = None, d_fit = None\<rparr>"

subsection \<open>The objects\<close>

text \<open>
  The attributes every \<open>DesignObject\<close> stores, apart from \<open>x\<close>, \<open>y\<close>, \<open>width\<close> and
  \<open>height\<close>, which every object holds in a \<open>Rect\<close> of its own. \<open>parent\<close> is the back
  reference that the owning container sets in \<open>addChild\<close>; in the model a child is a
  member of its container's \<open>children\<close> list and the back reference is not stored.
\<close>

record Attrs =
  obj_id :: string
  obj_name :: string
  rotation :: real
  fill :: "string option"
  fillOpacity :: real
  stroke :: "string option"
  strokeWidth :: real
  strokeOpacity :: real
  visible :: bool
  locked :: bool
  opacity :: real
  blendMode :: string
  gradient :: "Gradient option"
  shadows :: "Shadow list"
  blur :: real
  constraints :: "Constraints option"

record TextFields =
  text_value :: string
  fontFamily :: string
  fontSize :: real
  fontWeight :: string
  lineHeight :: real
  textAlign :: string

record FrameFields =
  fr_clipContent :: bool
  fr_cornerRadius :: real
  autoLayout :: "AutoLayout option"

text \<open>\<open>p_x\<close>, \<open>p_y\<close>, \<open>p_width\<close>, \<open>p_height\<close> are the private \<open>_x\<close>, \<open>_y\<close>, \<open>_width\<close>,
  \<open>_height\<close> that \<open>updateBounds\<close> writes and the \<open>bounds\<close> getter of \<open>Path\<close> reads.\<close>

record PathFields =
  points :: "PathPoint list"
  closed_flag :: bool
  p_x :: real
  p_y :: real
  p_width :: real
  p_height :: real

record ComponentFields =
  cm_clipContent :: bool
  cm_cornerRadius :: real
  componentId :: string
  description :: string
  instances :: "ref list"

record InstanceFields =
  in_componentId :: string
  masterComponent :: "ref option"
  overrides :: "(string \<times> bool) list"
  in_cornerRadius :: real

text \<open>The private \<open>_image\<close> of \<open>ImageObject\<close> is a DOM element and is left out.\<close>

record ImageFields =
  src :: string
  imageData :: "string option"
  fit :: ImageFit
  im_cornerRadius :: real

text \<open>
  One constructor per class. \<open>Unknown\<close> is an instance of the base class itself, which
  \<open>deserialize\<close> builds for a type tag it does not know; it carries the tag.
\<close>

datatype DesignObject =
    Rectangle Attrs Rect real
  | Ellipse Attrs Rect
  | Line Attrs Rect real real real real
  | TextObject Attrs Rect TextFields
  | Frame Attrs Rect FrameFields "DesignObject list"
  | Path Attrs Rect PathFields
  | Group Attrs Rect "DesignObject list"
  | ImageObject Attrs Rect ImageFields
  | Component Attrs Rect ComponentFields "DesignObject list"
  | ComponentInstance Attrs Rect InstanceFields
  | Unknown string Attrs Rect

type_synonym store = "ref \<Rightarrow> DesignObject option"

fun type_of :: "DesignObject \<Rightarrow> string" where
  "type_of (Rectangle a b cr) = ''rectangle''"
| "type_of (Ellipse a b) = ''ellipse''"
| "type_of (Line a b x1 y1 x2 y2) = ''line''"
| "type_of (TextObject a b tf) = ''text''"
| "type_of (Frame a b ff cs) = ''frame''"
| "type_of (Path a b pf) = ''path''"
| "type_of (Group a b cs) = ''group''"
| "type_of (ImageObject a b imf) = ''image''"
| "type_of (Component a b cf cs) = ''component''"
| "type_of (ComponentInstance a b ci) = ''componentInstance''"
| "type_of (Unknown ty a b) = ty"

fun attrs_of :: "DesignObject \<Rightarrow> Attrs" where
  "attrs_of (Rectangle a b cr) = a"
| "attrs_of (Ellipse a b) = a"
| "attrs_of (Line a b x1 y1 x2 y2) = a"
| "attrs_of (TextObject a b tf) = a"
| "attrs_of (Frame a b ff cs) = a"
| "attrs_of (Path a b pf) = a"
| "attrs_of (Group a b cs) = a"
| "attrs_of (ImageObject a b imf) = a"
| "attrs_of (Component a b cf cs) = a"
| "attrs_of (ComponentInstance a b ci) = a"
| "attrs_of (Unknown ty a b) = a"

text \<open>Assignment to attributes of an object, whatever its class.\<close>

fun update_attrs :: "(Attrs \<Rightarrow> Attrs) \<Rightarrow> DesignObject \<Rightarrow> DesignObject" where
  "update_attrs f (Rectangle a b cr) = Rectangle (f a) b cr"
| "update_attrs f (Ellipse a b) = Ellipse (f a) b"
| "update_attrs f (Line a b x1 y1 x2 y2) = Line (f a) b x1 y1 x2 y2"
| "update_attrs f (TextObject a b tf) = TextObject (f a) b tf"
| "update_attrs f (Frame a b ff cs) = Frame (f a) b ff cs"
| "update_attrs f (Path a b pf) = Path (f a) b pf"
| "update_attrs f (Group a b cs) = Group (f a) b cs"
| "update_attrs f (ImageObject a b imf) = ImageObject (f a) b imf"
| "update_attrs f (Component a b cf cs) = Component (f a) b cf cs"
| "update_attrs f (ComponentInstance a b ci) = ComponentInstance (f a) b ci"
| "update_attrs f (Unknown ty a b) = Unknown ty (f a) b"

subsection \<open>\<open>x\<close>, \<open>y\<close>, \<open>width\<close>, \<open>height\<close> and the endpoints of a \<open>Line\<close>\<close>

text \<open>
  \<^verbatim>\<open>
  export class DesignObject {
      id: string;  type: DesignObjectType;  name: string;
      x: number;  y: number;  width: number;  height: number;
      ...
  \<close>
  \<open>DesignObject\<close> declares \<open>x\<close>, \<open>y\<close>, \<open>width\<close> and \<open>height\<close> as class fields. A class
  field is defined on the object itself when it is constructed, so every object, a
  \<open>Line\<close> too, has the four as data properties of its own, and the base constructor
  assigns them. \<open>Line\<close> declares accessors of the same names,
  \<^verbatim>\<open>
  override get x(): number { return this.bounds.x; }
  override set x(val: number) {
      const dx = val - this.bounds.x;  this.x1 += dx;  this.x2 += dx;
  }
  override get width(): number { return this.bounds.width; }
  override set width(val: number) {
      const currentWidth = this.bounds.width;
      if (currentWidth === 0) return;
      const ratio = val / currentWidth;
      const minX = Math.min(this.x1, this.x2);
      this.x1 = minX + (this.x1 - minX) * ratio;
      this.x2 = minX + (this.x2 - minX) * ratio;
  }
  \<close>
  (and likewise for \<open>y\<close> and \<open>height\<close>), but they live on the prototype of \<open>Line\<close>: a
  read or an assignment of \<open>line.x\<close> finds the property of the object first and never
  reaches them. So a \<open>Line\<close> stores \<open>x\<close>, \<open>y\<close>, \<open>width\<close>, \<open>height\<close> like every other
  object, next to its endpoints, and an assignment to one of the four leaves the
  endpoints as they are.
\<close>

text \<open>What reading \<open>x\<close>, \<open>y\<close>, \<open>width\<close>, \<open>height\<close> of an object gives: its stored
  fields.\<close>

fun box_of :: "DesignObject \<Rightarrow> Rect" where
  "box_of (Rectangle a b cr) = b"
| "box_of (Ellipse a b) = b"
| "box_of (Line a b x1 y1 x2 y2) = b"
| "box_of (TextObject a b tf) = b"
| "box_of (Frame a b ff cs) = b"
| "box_of (Path a b pf) = b"
| "box_of (Group a b cs) = b"
| "box_of (ImageObject a b imf) = b"
| "box_of (Component a b cf cs) = b"
| "box_of (ComponentInstance a b ci) = b"
| "box_of (Unknown ty a b) = b"

definition get_x :: "DesignObject \<Rightarrow> real" where
  "get_x obj = rect_x (box_of obj)"

definition get_y :: "DesignObject \<Rightarrow> real" where
  "get_y obj = rect_y (box_of obj)"

definition get_width :: "DesignObject \<Rightarrow> real" where
  "get_width obj = rect_width (box_of obj)"

definition get_height :: "DesignObject \<Rightarrow> real" where
  "get_height obj = rect_height (box_of obj)"

text \<open>Assignment to the stored fields of an object.\<close>

fun update_box :: "(Rect \<Rightarrow> Rect) \<Rightarrow> DesignObject \<Rightarrow> DesignObject" where
  "update_box f (Rectangle a b cr) = Rectangle a (f b) cr"
| "update_box f (Ellipse a b) = Ellipse a (f b)"
| "update_box f (Line a b x1 y1 x2 y2) = Line a (f b) x1 y1 x2 y2"
| "update_box f (TextObject a b tf) = TextObject a (f b) tf"
| "update_box f (Frame a b ff cs) = Frame a (f b) ff cs"
| "update_box f (Path a b pf) = Path a (f b) pf"
| "update_box f (Group a b cs) = Group a (f b) cs"
| "update_box f (ImageObject a b imf) = ImageObject a (f b) imf"
| "update_box f (Component a b cf cs) = Component a (f b) cf cs"
| "update_box f (ComponentInstance a b ci) = ComponentInstance a (f b) ci"
| "update_box f (Unknown ty a b) = Unknown ty a (f b)"

definition set_x :: "real \<Rightarrow> DesignObject \<Rightarrow> DesignObject" where
  "set_x val obj = update_box (\<lambda>b. b\<lparr>rect_x := val\<rparr>) obj"

definition set_y :: "real \<Rightarrow> DesignObject \<Rightarrow> DesignObject" where
  "set_y val obj = update_box (\<lambda>b. b\<lparr>rect_y := val\<rparr>) obj"

definition set_width :: "real \<Rightarrow> DesignObject \<Rightarrow> DesignObject" where
  "set_width val obj = update_box (\<lambda>b. b\<lparr>rect_width := val\<rparr>) obj"

definition set_height :: "real \<Rightarrow> DesignObject \<Rightarrow> DesignObject" where
  "set_height val obj = update_box (\<lambda>b. b\<lparr>rect_height := val\<rparr>) obj"

subsection \<open>\<open>bounds\<close>\<close>

text \<open>
  \<^verbatim>\<open>
  get bounds(): Rect {
      const minX = Math.min(this.x1, this.x2);  const minY = Math.min(this.y1, this.y2);
      const maxX = Math.max(this.x1, this.x2);  const maxY = Math.max(this.y1, this.y2);
      return { x: minX, y: minY, width: maxX - minX || 1, height: maxY - minY || 1 };
  }
  \<close>
  The base class has no class field \<open>bounds\<close>, so this getter of \<open>Line\<close> is the one
  that a read of \<open>line.bounds\<close> runs.
\<close>

definition Line_bounds :: "real \<Rightarrow> real \<Rightarrow> real \<Rightarrow> real \<Rightarrow> Rect" where
  "Line_bounds x1 y1 x2 y2 =
     (let minX = min x1 x2; minY = min y1 y2; maxX = max x1 x2; maxY = max y1 y2
      in \<lparr>rect_x = minX, rect_y = minY,
          rect_width = or_zero (maxX - minX) 1, rect_height = or_zero (maxY - minY) 1\<rparr>)"

text \<open>The \<open>bounds\<close> getter: the base class returns \<open>{x, y, width, height}\<close> as read
  from the object, \<open>Line\<close> and \<open>Path\<close> override it.\<close>

fun bounds :: "DesignObject \<Rightarrow> Rect" where
  "bounds (Line a b x1 y1 x2 y2) = Line_bounds x1 y1 x2 y2"
| "bounds (Path a b pf) =
     \<lparr>rect_x = or_zero (p_x pf) 0, rect_y = or_zero (p_y pf) 0,
      rect_width = or_zero (p_width pf) 1, rect_height = or_zero (p_height pf) 1\<rparr>"
| "bounds obj = box_of obj"
subsection \<open>The base constructor\<close>

text \<open>
  \<^verbatim>\<open>
  constructor(type: DesignObjectType, options: Partial<DesignObjectData> = {}) {
      this.id = options.id || Utils.generateId();
      this.type = type;
      this.name = options.name || type.charAt(0).toUpperCase() + type.slice(1);
      this.x = options.x || 0;             this.y = options.y || 0;
      this.width = options.width || 100;   this.height = options.height || 100;
      this.rotation = options.rotation || 0;
      this.fill = options.fill !== undefined ? options.fill : '#5B5BFF';
      this.fillOpacity = options.fillOpacity !== undefined ? options.fillOpacity : 1;
      this.stroke = options.stroke || null;
      this.strokeWidth = options.strokeWidth || 0;
      this.strokeOpacity = options.strokeOpacity !== undefined ? options.strokeOpacity : 1;
      this.visible = options.visible !== undefined ? options.visible : true;
      this.locked = options.locked || false;
      this.opacity = options.opacity !== undefined ? options.opacity : 1;
      this.blendMode = options.blendMode || 'normal';
      this.parent = null;
      this.gradient = options.gradient ? Gradient.deserialize(options.gradient) : null;
      this.shadows = [];
      if (options.shadows) {
          options.shadows.forEach(s => {
              const shadow = Shadow.deserialize(s);
              if (shadow) this.shadows.push(shadow);
          });
      }
      this.blur = options.blur || 0;
      this.constraints = options.constraints ? Constraints.deserialize(options.constraints) : null;
  }
  \<close>
  The result is the pair of the attributes and of the values assigned to \<open>x\<close>, \<open>y\<close>,
  \<open>width\<close>, \<open>height\<close>.
\<close>

definition new_DesignObject ::
  "string \<Rightarrow> DesignObjectFields \<Rightarrow> idgen \<Rightarrow> (Attrs \<times> Rect) \<times> idgen" where
  "new_DesignObject type options g =
     (let (ident, g1) =
            (case d_id options of
               None \<Rightarrow> generateId g
             | Some i \<Rightarrow> if i = [] then generateId g else (i, g))
      in ((\<lparr>obj_id = ident,
             obj_name = or_str (d_name options) (capitalize type),
             rotation = or_num (d_rotation options) 0,
             fill = defined_or (d_fill options) (Some ''#5B5BFF''),
             fillOpacity = defined_or (d_fillOpacity options) 1,
             stroke = or_null (d_stroke options),
             strokeWidth = or_num (d_strokeWidth options) 0,
             strokeOpacity = defined_or (d_strokeOpacity options) 1,
             visible = defined_or (d_visible options) True,
             locked = or_bool (d_locked options) False,
             opacity = defined_or (d_opacity options) 1,
             blendMode = or_str (d_blendMode options) ''normal'',
             gradient =
               (case d_gradient options of
                  Some (Some gd) \<Rightarrow> Gradient_deserialize (Some gd)
                | _ \<Rightarrow> None),
             shadows =
               (case d_shadows options of
                  None \<Rightarrow> []
                | Some ss \<Rightarrow> List.map_filter (\<lambda>s. Shadow_deserialize (Some s)) ss),
             blur = or_num (d_blur options) 0,
             constraints =
               (case d_constraints options of
                  Some (Some cd) \<Rightarrow> Constraints_deserialize (Some cd)
                | _ \<Rightarrow> None)\<rparr>,
           \<lparr>rect_x = or_num (d_x options) 0,
             rect_y = or_num (d_y options) 0,
             rect_width = or_num (d_width options) 100,
             rect_height = or_num (d_height options) 100\<rparr>), g1))"

text \<open>\<open>DesignObject.serialize\<close>; \<open>b\<close> is what \<open>this.x\<close>, \<open>this.y\<close>, \<open>this.width\<close>,
  \<open>this.height\<close> read.\<close>

definition serialize_base :: "string \<Rightarrow> Attrs \<Rightarrow> Rect \<Rightarrow> DesignObjectFields" where
  "serialize_base type a b =
     (no_fields type)
       \<lparr>d_id := Some (obj_id a),
        d_name := Some (obj_name a),
        d_x := Some (rect_x b),
        d_y := Some (rect_y b),
        d_width := Some (rect_width b),
        d_height := Some (rect_height b),
        d_rotation := Some (rotation a),
        d_fill := Some (fill a),
        d_fillOpacity := Some (fillOpacity a),
        d_stroke := Some (stroke a),
        d_strokeWidth := Some (strokeWidth a),
        d_strokeOpacity := Some (strokeOpacity a),
        d_visible := Some (visible a),
        d_locked := Some (locked a),
        d_opacity := Some (opacity a),
        d_blendMode := Some (blendMode a),
        d_gradient := Some (map_option Gradient_serialize (gradient a)),
        d_shadows := Some (map Shadow_serialize (shadows a)),
        d_blur := Some (blur a),
        d_constraints := Some (map_option Constraints_serialize (constraints a))\<rparr>"

subsection \<open>Constructors of the classes without children\<close>

definition new_Rectangle :: "DesignObjectFields \<Rightarrow> idgen \<Rightarrow> DesignObject \<times> idgen" where
  "new_Rectangle options g =
     (let ((a, b), g1) = new_DesignObject ''rectangle'' options g
      in (Rectangle a b (or_num (d_cornerRadius options) 0), g1))"

definition new_Ellipse :: "DesignObjectFields \<Rightarrow> idgen \<Rightarrow> DesignObject \<times> idgen" where
  "new_Ellipse options g =
     (let ((a, b), g1) = new_DesignObject ''ellipse'' options g
      in (Ellipse a b, g1))"

text \<open>
  \<^verbatim>\<open>
  constructor(options: Partial<LineData> = {}) {
      super('line', options);
      this.x1 = options.x1 ?? options.x ?? 0;
      this.y1 = options.y1 ?? options.y ?? 0;
      this.x2 = options.x2 ?? ((options.x ?? 0) + (options.width ?? 100));
      this.y2 = options.y2 ?? ((options.y ?? 0) + (options.height ?? 100));
      this.fill = null;
      this.stroke = options.stroke || '#000000';
      this.strokeWidth = options.strokeWidth || 2;
  }
  \<close>
  The assignments to \<open>x\<close>, \<open>y\<close>, \<open>width\<close>, \<open>height\<close> in the base constructor write the
  fields of the object, as for every class; the endpoints are set next to them.
\<close>

definition new_Line :: "DesignObjectFields \<Rightarrow> idgen \<Rightarrow> DesignObject \<times> idgen" where
  "new_Line options g =
     (let ((a, b), g1) = new_DesignObject ''line'' options g
      in (Line (a\<lparr>fill := None,
                   stroke := Some (or_nstr (d_stroke options) ''#000000''),
                   strokeWidth := or_num (d_strokeWidth options) 2\<rparr>)
            b
            (nullish (d_x1 options) (nullish (d_x options) 0))
            (nullish (d_y1 options) (nullish (d_y options) 0))
            (nullish (d_x2 options) (nullish (d_x options) 0 + nullish (d_width options) 100))
            (nullish (d_y2 options) (nullish (d_y options) 0 + nullish (d_height options) 100)),
          g1))"

definition new_TextObject :: "DesignObjectFields \<Rightarrow> idgen \<Rightarrow> DesignObject \<times> idgen" where
  "new_TextObject options g =
     (let ((a, b), g1) = new_DesignObject ''text'' options g
      in (TextObject a
            (b\<lparr>rect_width := or_num (d_width options) 100,
               rect_height := or_num (d_height options) 24\<rparr>)
            \<lparr>text_value = or_str (d_text options) ''Text'',
             fontFamily = or_str (d_fontFamily options) ''Inter'',
             fontSize = or_num (d_fontSize options) 16,
             fontWeight = or_str (d_fontWeight options) ''400'',
             lineHeight = or_num (d_lineHeight options) 1.5,
             textAlign = or_str (d_textAlign options) ''left''\<rparr>, g1))"

text \<open>
  \<^verbatim>\<open>
  updateBounds(): void {
      if (this.points.length === 0) return;
      let minX = Infinity, minY = Infinity;  let maxX = -Infinity, maxY = -Infinity;
      this.points.forEach(p => {
          minX = Math.min(minX, p.x);  minY = Math.min(minY, p.y);
          maxX = Math.max(maxX, p.x);  maxY = Math.max(maxY, p.y);
      });
      this._x = minX;  this._y = minY;
      this._width = maxX - minX || 1;  this._height = maxY - minY || 1;
  }
  \<close>
\<close>

definition Path_updateBounds :: "PathFields \<Rightarrow> PathFields" where
  "Path_updateBounds pf =
     (if length (points pf) = 0 then pf
      else
        let minX = min_of (map pp_x (points pf)); minY = min_of (map pp_y (points pf));
            maxX = max_of (map pp_x (points pf)); maxY = max_of (map pp_y (points pf))
        in pf\<lparr>p_x := minX, p_y := minY,
              p_width := or_zero (maxX - minX) 1, p_height := or_zero (maxY - minY) 1\<rparr>)"

definition new_Path :: "DesignObjectFields \<Rightarrow> idgen \<Rightarrow> DesignObject \<times> idgen" where
  "new_Path options g =
     (let ((a, b), g1) = new_DesignObject ''path'' options g
      in (Path a b
            (Path_updateBounds
               \<lparr>points = defined_or (d_points options) [],
                closed_flag = or_bool (d_closed options) False,
                p_x = 0, p_y = 0, p_width = 1, p_height = 1\<rparr>), g1))"

text \<open>\<open>loadImage\<close> only creates the DOM image and is left out.\<close>

definition new_ImageObject :: "DesignObjectFields \<Rightarrow> idgen \<Rightarrow> DesignObject \<times> idgen" where
  "new_ImageObject options g =
     (let ((a, b), g1) = new_DesignObject ''image'' options g
      in (ImageObject a b
            \<lparr>src = or_str (d_src options) [],
             imageData = or_null (d_imageData options),
             fit = defined_or (d_fit options) Cover,
             im_cornerRadius = or_num (d_cornerRadius options) 0\<rparr>, g1))"

text \<open>
  \<^verbatim>\<open>
  syncFromMaster(): void {
      if (!this.masterComponent) return;
      if (!this.overrides.width) this.width = this.masterComponent.width;
      if (!this.overrides.height) this.height = this.masterComponent.height;
      if (!this.overrides.cornerRadius) this.cornerRadius = this.masterComponent.cornerRadius;
      if (!this.overrides.fill) this.fill = this.masterComponent.fill;
      if (!this.overrides.stroke) this.stroke = this.masterComponent.stroke;
      if (!this.overrides.strokeWidth) this.strokeWidth = this.masterComponent.strokeWidth;
  }
  \<close>
  The master is read through its reference in the store of live objects; it is a
  \<open>Component\<close> by its type.
\<close>

definition overridden :: "(string \<times> bool) list \<Rightarrow> string \<Rightarrow> bool" where
  "overridden ov property = (map_of ov property = Some True)"

fun syncFromMaster :: "store \<Rightarrow> DesignObject \<Rightarrow> DesignObject" where
  "syncFromMaster st (ComponentInstance a b ci) =
     (case masterComponent ci of
        None \<Rightarrow> ComponentInstance a b ci
      | Some r \<Rightarrow>
          (case st r of
             Some (Component ma mb mf mcs) \<Rightarrow>
               ComponentInstance
                 (a\<lparr>fill := (if overridden (overrides ci) ''fill'' then fill a else fill ma),
                    stroke := (if overridden (overrides ci) ''stroke'' then stroke a else stroke ma),
                    strokeWidth := (if overridden (overrides ci) ''strokeWidth''
                                    then strokeWidth a else strokeWidth ma)\<rparr>)
                 (b\<lparr>rect_width := (if overridden (overrides ci) ''width''
                                    then rect_width b else rect_width mb),
                    rect_height := (if overridden (overrides ci) ''height''
                                    then rect_height b else rect_height mb)\<rparr>)
                 (ci\<lparr>in_cornerRadius := (if overridden (overrides ci) ''cornerRadius''
                                          then in_cornerRadius ci else cm_cornerRadius mf)\<rparr>)
           | _ \<Rightarrow> ComponentInstance a b ci))"
| "syncFromMaster st obj = obj"

text \<open>
  \<^verbatim>\<open>
  constructor(options: Partial<ComponentInstanceData> = {}) {
      super('componentInstance', options);
      this.componentId = options.componentId || '';
      this.masterComponent = options.masterComponent || null;
      this.overrides = options.overrides || {};
      this.cornerRadius = options.cornerRadius || 0;
      if (this.masterComponent) { this.syncFromMaster(); }
  }
  \<close>
\<close>

definition new_ComponentInstance ::
  "store \<Rightarrow> DesignObjectFields \<Rightarrow> idgen \<Rightarrow> DesignObject \<times> idgen" where
  "new_ComponentInstance st options g =
     (let ((a, b), g1) = new_DesignObject ''componentInstance'' options g;
          this = ComponentInstance a b
                   \<lparr>in_componentId = or_str (d_componentId options) [],
                    masterComponent = d_masterComponent options,
                    overrides = defined_or (d_overrides options) [],
                    in_cornerRadius = or_num (d_cornerRadius options) 0\<rparr>
      in (if d_masterComponent options \<noteq> None then syncFromMaster st this else this, g1))"

text \<open>\<open>new DesignObject(data.type, data)\<close>, the default branch of \<open>deserialize\<close>.\<close>

definition new_Unknown :: "string \<Rightarrow> DesignObjectFields \<Rightarrow> idgen \<Rightarrow> DesignObject \<times> idgen" where
  "new_Unknown type options g =
     (let ((a, b), g1) = new_DesignObject type options g in (Unknown type a b, g1))"

subsection \<open>Auto layout (\<open>AutoLayout.apply\<close>)\<close>

text \<open>
  The first loop of \<open>apply\<close>:
  \<^verbatim>\<open>
  let totalSize = 0;  let maxCrossSize = 0;
  children.forEach(child => {
      if (isHorizontal) { totalSize += child.width;  maxCrossSize = Math.max(maxCrossSize, child.height); }
      else              { totalSize += child.height; maxCrossSize = Math.max(maxCrossSize, child.width); }
  });
  \<close>
\<close>

fun measure_children :: "bool \<Rightarrow> real \<times> real \<Rightarrow> DesignObject list \<Rightarrow> real \<times> real" where
  "measure_children isHorizontal (totalSize, maxCrossSize) [] = (totalSize, maxCrossSize)"
| "measure_children isHorizontal (totalSize, maxCrossSize) (child # rest) =
     (if isHorizontal
      then measure_children isHorizontal
             (totalSize + get_width child, max maxCrossSize (get_height child)) rest
      else measure_children isHorizontal
             (totalSize + get_height child, max maxCrossSize (get_width child)) rest)"

text \<open>
  The second loop: each child is placed at \<open>currentPos\<close> on the primary axis, then
  aligned on the counter axis.
  \<^verbatim>\<open>
  children.forEach((child, index) => {
      if (isHorizontal) {
          child.x = currentPos;
          currentPos += child.width + this.spacing;
          switch (this.counterAxisAlign) {
              case 'start':   child.y = frame.y + this.paddingTop; break;
              case 'center':  child.y = frame.y + this.paddingTop + (maxCrossSize - child.height) / 2; break;
              case 'end':     child.y = frame.y + this.paddingTop + maxCrossSize - child.height; break;
              case 'stretch': child.y = frame.y + this.paddingTop; child.height = maxCrossSize; break;
          }
      } else { ... the same with x and y, width and height, paddingLeft exchanged ... }
  });
  \<close>
\<close>

fun place_children ::
  "AutoLayout \<Rightarrow> Rect \<Rightarrow> real \<Rightarrow> real \<Rightarrow> DesignObject list \<Rightarrow> DesignObject list" where
  "place_children this frame maxCrossSize currentPos [] = []"
| "place_children this frame maxCrossSize currentPos (child # rest) =
     (if direction this = Horizontal then
        let c1 = set_x currentPos child;
            currentPos' = currentPos + (get_width c1 + spacing this);
            c2 = (case counterAxisAlign this of
                    C_start \<Rightarrow> set_y (rect_y frame + paddingTop this) c1
                  | C_center \<Rightarrow>
                      set_y (rect_y frame + paddingTop this + (maxCrossSize - get_height c1) / 2) c1
                  | C_end \<Rightarrow>
                      set_y (rect_y frame + paddingTop this + maxCrossSize - get_height c1) c1
                  | C_stretch \<Rightarrow>
                      set_height maxCrossSize (set_y (rect_y frame + paddingTop this) c1))
        in c2 # place_children this frame maxCrossSize currentPos' rest
      else
        let c1 = set_y currentPos child;
            currentPos' = currentPos + (get_height c1 + spacing this);
            c2 = (case counterAxisAlign this of
                    C_start \<Rightarrow> set_x (rect_x frame + paddingLeft this) c1
                  | C_center \<Rightarrow>
                      set_x (rect_x frame + paddingLeft this + (maxCrossSize - get_width c1) / 2) c1
                  | C_end \<Rightarrow>
                      set_x (rect_x frame + paddingLeft this + maxCrossSize - get_width c1) c1
                  | C_stretch \<Rightarrow>
                      set_width maxCrossSize (set_x (rect_x frame + paddingLeft this) c1))
        in c2 # place_children this frame maxCrossSize currentPos' rest)"

text \<open>
  \<open>apply(frame: Frame)\<close>. After the two loops:
  \<^verbatim>\<open>
  if (this.primaryAxisSizing === 'hug') {
      if (isHorizontal) frame.width = totalSize + this.paddingLeft + this.paddingRight;
      else              frame.height = totalSize + this.paddingTop + this.paddingBottom;
  }
  if (this.counterAxisSizing === 'hug') {
      if (isHorizontal) frame.height = maxCrossSize + this.paddingTop + this.paddingBottom;
      else              frame.width = maxCrossSize + this.paddingLeft + this.paddingRight;
  }
  \<close>
  The parameter is a \<open>Frame\<close> by its type; the last equation is never used.
\<close>

fun AutoLayout_apply :: "AutoLayout \<Rightarrow> DesignObject \<Rightarrow> DesignObject" where
  "AutoLayout_apply this (Frame a b ff children) =
     (if length children = 0 then Frame a b ff children
      else
        let isHorizontal = (direction this = Horizontal);
            currentPos = (if isHorizontal then rect_x b + paddingLeft this
                          else rect_y b + paddingTop this);
            (totalSize0, maxCrossSize) = measure_children isHorizontal (0, 0) children;
            totalSize = totalSize0 + spacing this * (real (length children) - 1);
            children' = place_children this b maxCrossSize currentPos children;
            b1 = (if primaryAxisSizing this = Hug then
                    (if isHorizontal
                     then b\<lparr>rect_width := totalSize + paddingLeft this + paddingRight this\<rparr>
                     else b\<lparr>rect_height := totalSize + paddingTop this + paddingBottom this\<rparr>)
                  else b);
            b2 = (if counterAxisSizing this = Hug then
                    (if isHorizontal
                     then b1\<lparr>rect_height := maxCrossSize + paddingTop this + paddingBottom this\<rparr>
                     else b1\<lparr>rect_width := maxCrossSize + paddingLeft this + paddingRight this\<rparr>)
                  else b1)
        in Frame a b2 ff children')"
| "AutoLayout_apply this obj = obj"

subsection \<open>Containers: \<open>addChild\<close>\<close>

text \<open>The methods below exist on one class only; on an object of another class the
  model returns the object unchanged, a case the code cannot reach.\<close>

fun Frame_applyAutoLayout :: "DesignObject \<Rightarrow> DesignObject" where
  "Frame_applyAutoLayout (Frame a b ff children) =
     (case autoLayout ff of
        Some al \<Rightarrow> AutoLayout_apply al (Frame a b ff children)
      | None \<Rightarrow> Frame a b ff children)"
| "Frame_applyAutoLayout obj = obj"

text \<open>
  \<^verbatim>\<open>
  addChild(object: DesignObject): void {
      object.parent = this;
      this.children.push(object);
      if (this.autoLayout) { this.applyAutoLayout(); }
  }
  \<close>
\<close>

fun Frame_addChild :: "DesignObject \<Rightarrow> DesignObject \<Rightarrow> DesignObject" where
  "Frame_addChild (Frame a b ff children) object =
     (if autoLayout ff \<noteq> None
      then Frame_applyAutoLayout (Frame a b ff (children @ [object]))
      else Frame a b ff (children @ [object]))"
| "Frame_addChild obj object = obj"

text \<open>
  \<^verbatim>\<open>
  updateBounds(): void {
      if (this.children.length === 0) return;
      let minX = Infinity, minY = Infinity;  let maxX = -Infinity, maxY = -Infinity;
      this.children.forEach(child => {
          const bounds = child.bounds;
          minX = Math.min(minX, bounds.x);  minY = Math.min(minY, bounds.y);
          maxX = Math.max(maxX, bounds.x + bounds.width);
          maxY = Math.max(maxY, bounds.y + bounds.height);
      });
      this.x = minX;  this.y = minY;  this.width = maxX - minX;  this.height = maxY - minY;
  }
  \<close>
\<close>

definition children_bounds :: "DesignObject list \<Rightarrow> Rect" where
  "children_bounds children =
     (let minX = min_of (map (\<lambda>child. rect_x (bounds child)) children);
          minY = min_of (map (\<lambda>child. rect_y (bounds child)) children);
          maxX = max_of (map (\<lambda>child. rect_x (bounds child) + rect_width (bounds child)) children);
          maxY = max_of (map (\<lambda>child. rect_y (bounds child) + rect_height (bounds child)) children)
      in \<lparr>rect_x = minX, rect_y = minY, rect_width = maxX - minX, rect_height = maxY - minY\<rparr>)"

fun Group_updateBounds :: "DesignObject \<Rightarrow> DesignObject" where
  "Group_updateBounds (Group a b children) =
     (if length children = 0 then Group a b children
      else Group a (children_bounds children) children)"
| "Group_updateBounds obj = obj"

fun Group_addChild :: "DesignObject \<Rightarrow> DesignObject \<Rightarrow> DesignObject" where
  "Group_addChild (Group a b children) object = Group_updateBounds (Group a b (children @ [object]))"
| "Group_addChild obj object = obj"

fun Component_addChild :: "DesignObject \<Rightarrow> DesignObject \<Rightarrow> DesignObject" where
  "Component_addChild (Component a b cf children) object = Component a b cf (children @ [object])"
| "Component_addChild obj object = obj"

subsection \<open>\<open>serialize\<close>\<close>

text \<open>
  Each class spreads \<open>super.serialize()\<close> and adds its own properties; the containers
  add \<open>children: this.children.map(child => child.serialize())\<close>. \<open>ComponentInstance\<close>
  writes \<open>componentId\<close>, \<open>overrides\<close> and \<open>cornerRadius\<close>, not \<open>masterComponent\<close>;
  \<open>Component\<close> does not write \<open>instances\<close>.
\<close>

fun serialize :: "DesignObject \<Rightarrow> DesignObjectData" where
  "serialize (Rectangle a b cr) =
     Data ((serialize_base ''rectangle'' a b)\<lparr>d_cornerRadius := Some cr\<rparr>) None"
| "serialize (Ellipse a b) = Data (serialize_base ''ellipse'' a b) None"
| "serialize (Line a b x1 y1 x2 y2) =
     Data ((serialize_base ''line'' a b)
             \<lparr>d_x1 := Some x1, d_y1 := Some y1, d_x2 := Some x2, d_y2 := Some y2\<rparr>) None"
| "serialize (TextObject a b tf) =
     Data ((serialize_base ''text'' a b)
             \<lparr>d_text := Some (text_value tf),
              d_fontFamily := Some (fontFamily tf),
              d_fontSize := Some (fontSize tf),
              d_fontWeight := Some (fontWeight tf),
              d_lineHeight := Some (lineHeight tf),
              d_textAlign := Some (textAlign tf)\<rparr>) None"
| "serialize (Frame a b ff children) =
     Data ((serialize_base ''frame'' a b)
             \<lparr>d_clipContent := Some (fr_clipContent ff),
              d_cornerRadius := Some (fr_cornerRadius ff),
              d_autoLayout := Some (map_option AutoLayout_serialize (autoLayout ff))\<rparr>)
          (Some (map serialize children))"
| "serialize (Path a b pf) =
     Data ((serialize_base ''path'' a b)
             \<lparr>d_points := Some (points pf), d_closed := Some (closed_flag pf)\<rparr>) None"
| "serialize (Group a b children) =
     Data (serialize_base ''group'' a b) (Some (map serialize children))"
| "serialize (ImageObject a b imf) =
     Data ((serialize_base ''image'' a b)
             \<lparr>d_src := Some (src imf),
              d_imageData := Some (imageData imf),
              d_fit := Some (fit imf),
              d_cornerRadius := Some (im_cornerRadius imf)\<rparr>) None"
| "serialize (Component a b cf children) =
     Data ((serialize_base ''component'' a b)
             \<lparr>d_clipContent := Some (cm_clipContent cf),
              d_cornerRadius := Some (cm_cornerRadius cf),
              d_componentId := Some (componentId cf),
              d_description := Some (description cf)\<rparr>)
          (Some (map serialize children))"
| "serialize (ComponentInstance a b ci) =
     Data ((serialize_base ''componentInstance'' a b)
             \<lparr>d_componentId := Some (in_componentId ci),
              d_overrides := Some (overrides ci),
              d_cornerRadius := Some (in_cornerRadius ci)\<rparr>) None"
| "serialize (Unknown ty a b) = Data (serialize_base ty a b) None"

subsection \<open>\<open>deserialize\<close> and the constructors of the containers\<close>

text \<open>
  \<^verbatim>\<open>
  static deserialize(data: DesignObjectData): DesignObject {
      switch (data.type) {
          case 'rectangle': return new Rectangle(data);
          case 'ellipse': return new Ellipse(data);
          case 'line': return new Line(data as LineData);
          case 'text': return new TextObject(data as TextObjectData);
          case 'frame': return new Frame(data as FrameData);
          case 'path': return new Path(data as PathData);
          case 'group': return new Group(data as GroupData);
          case 'image': return new ImageObject(data as ImageObjectData);
          case 'component': return new Component(data as ComponentData);
          case 'componentInstance': return new ComponentInstance(data as ComponentInstanceData);
          default: return new DesignObject(data.type, data);
      }
  }
  \<close>
  The constructors of \<open>Frame\<close>, \<open>Group\<close> and \<open>Component\<close> end with
  \<^verbatim>\<open>
  if (options.children) {
      options.children.forEach(childData => {
          const child = DesignObject.deserialize(childData);
          this.addChild(child);
      });
  }
  \<close>
  Deserializing a child does not read the container, so the model deserializes the
  children in order (\<open>deserialize_children\<close>, which also passes the identifier stream
  along) and then adds them one by one with \<open>addChild\<close>.
\<close>

fun deserialize :: "store \<Rightarrow> DesignObjectData \<Rightarrow> idgen \<Rightarrow> DesignObject \<times> idgen"
  and new_Frame :: "store \<Rightarrow> DesignObjectData \<Rightarrow> idgen \<Rightarrow> DesignObject \<times> idgen"
  and new_Group :: "store \<Rightarrow> DesignObjectData \<Rightarrow> idgen \<Rightarrow> DesignObject \<times> idgen"
  and new_Component :: "store \<Rightarrow> DesignObjectData \<Rightarrow> idgen \<Rightarrow> DesignObject \<times> idgen"
  and deserialize_children ::
    "store \<Rightarrow> DesignObjectData list \<Rightarrow> idgen \<Rightarrow> DesignObject list \<times> idgen"
where
  "deserialize st (Data options kids) g =
     (if d_type options = ''rectangle'' then new_Rectangle options g
      else if d_type options = ''ellipse'' then new_Ellipse options g
      else if d_type options = ''line'' then new_Line options g
      else if d_type options = ''text'' then new_TextObject options g
      else if d_type options = ''frame'' then new_Frame st (Data options kids) g
      else if d_type options = ''path'' then new_Path options g
      else if d_type options = ''group'' then new_Group st (Data options kids) g
      else if d_type options = ''image'' then new_ImageObject options g
      else if d_type options = ''component'' then new_Component st (Data options kids) g
      else if d_type options = ''componentInstance'' then new_ComponentInstance st options g
      else new_Unknown (d_type options) options g)"
| "new_Frame st (Data options kids) g =
     (let ((a, b), g1) = new_DesignObject ''frame'' options g;
          this = Frame (a\<lparr>fill := Some (or_nstr (d_fill options) ''#FFFFFF'')\<rparr>) b
                   \<lparr>fr_clipContent = defined_or (d_clipContent options) True,
                    fr_cornerRadius = or_num (d_cornerRadius options) 0,
                    autoLayout =
                      (case d_autoLayout options of
                         Some (Some ald) \<Rightarrow> AutoLayout_deserialize (Some ald)
                       | _ \<Rightarrow> None)\<rparr> []
      in case kids of
           None \<Rightarrow> (this, g1)
         | Some childData \<Rightarrow>
             (let (children, g2) = deserialize_children st childData g1
              in (foldl Frame_addChild this children, g2)))"
| "new_Group st (Data options kids) g =
     (let ((a, b), g1) = new_DesignObject ''group'' options g;
          this = Group (a\<lparr>fill := None\<rparr>) b []
      in case kids of
           None \<Rightarrow> (this, g1)
         | Some childData \<Rightarrow>
             (let (children, g2) = deserialize_children st childData g1
              in (foldl Group_addChild this children, g2)))"
| "new_Component st (Data options kids) g =
     (let ((a, b), g1) = new_DesignObject ''component'' options g;
          (cid, g2) = (case d_componentId options of
                         None \<Rightarrow> generateId g1
                       | Some i \<Rightarrow> if i = [] then generateId g1 else (i, g1));
          this = Component (a\<lparr>fill := Some (or_nstr (d_fill options) ''#FFFFFF'')\<rparr>) b
                   \<lparr>cm_clipContent = defined_or (d_clipContent options) True,
                    cm_cornerRadius = or_num (d_cornerRadius options) 0,
                    componentId = cid,
                    description = or_str (d_description options) [],
                    instances = []\<rparr> []
      in case kids of
           None \<Rightarrow> (this, g2)
         | Some childData \<Rightarrow>
             (let (children, g3) = deserialize_children st childData g2
              in (foldl Component_addChild this children, g3)))"
| "deserialize_children st [] g = ([], g)"
| "deserialize_children st (childData # rest) g =
     (let (child, g1) = deserialize st childData g;
          (children, g2) = deserialize_children st rest g1
      in (child # children, g2))"

subsection \<open>\<open>clone\<close>\<close>

text \<open>
  \<^verbatim>\<open>
  clone(): DesignObject {
      const Constructor = this.constructor as new (options: DesignObjectData) => DesignObject;
      const cloned = new Constructor(this.serialize());
      cloned.id = Utils.generateId();
      cloned.name = this.name + ' Copy';
      return cloned;
  }
  \<close>
  \<open>this.constructor\<close> is the constructor of the object's class. For an instance of the
  base class it is \<open>DesignObject\<close> itself, which takes the type tag first: called with
  the serialized object in its place and no options, it fails on \<open>type.charAt\<close>.
\<close>

datatype error = TypeError

fun construct :: "store \<Rightarrow> DesignObject \<Rightarrow> DesignObjectData \<Rightarrow> idgen \<Rightarrow> error + DesignObject \<times> idgen"
where
  "construct st (Rectangle a b cr) (Data options kids) g = Inr (new_Rectangle options g)"
| "construct st (Ellipse a b) (Data options kids) g = Inr (new_Ellipse options g)"
| "construct st (Line a b x1 y1 x2 y2) (Data options kids) g = Inr (new_Line options g)"
| "construct st (TextObject a b tf) (Data options kids) g = Inr (new_TextObject options g)"
| "construct st (Frame a b ff cs) data g = Inr (new_Frame st data g)"
| "construct st (Path a b pf) (Data options kids) g = Inr (new_Path options g)"
| "construct st (Group a b cs) data g = Inr (new_Group st data g)"
| "construct st (ImageObject a b imf) (Data options kids) g = Inr (new_ImageObject options g)"
| "construct st (Component a b cf cs) data g = Inr (new_Component st data g)"
| "construct st (ComponentInstance a b ci) (Data options kids) g =
     Inr (new_ComponentInstance st options g)"
| "construct st (Unknown ty a b) data g = Inl TypeError"

definition clone :: "store \<Rightarrow> DesignObject \<Rightarrow> idgen \<Rightarrow> error + DesignObject \<times> idgen" where
  "clone st this g =
     (case construct st this (serialize this) g of
        Inl e \<Rightarrow> Inl e
      | Inr (cloned, g1) \<Rightarrow>
          (let (ident, g2) = generateId g1
           in Inr (update_attrs
                     (\<lambda>a. a\<lparr>obj_id := ident, obj_name := obj_name (attrs_of this) @ '' Copy''\<rparr>)
                     cloned, g2)))"

subsection \<open>\<open>Component.createInstance\<close>\<close>

text \<open>
  \<^verbatim>\<open>
  createInstance(x?: number, y?: number): ComponentInstance {
      const instance = new ComponentInstance({
          x: x !== undefined ? x : this.x,
          y: y !== undefined ? y : this.y,
          width: this.width,
          height: this.height,
          componentId: this.componentId,
          masterComponent: this
      });
      this.instances.add(instance);
      return instance;
  }
  \<close>
  \<open>self\<close> is the address of the component and \<open>fresh\<close> the address the new instance
  gets; the store is read with the component at \<open>self\<close>. The result is the instance and
  the component with the instance added to its set.
\<close>

fun Component_createInstance ::
  "store \<Rightarrow> ref \<Rightarrow> ref \<Rightarrow> real option \<Rightarrow> real option \<Rightarrow> DesignObject \<Rightarrow> idgen
   \<Rightarrow> (DesignObject \<times> DesignObject) \<times> idgen" where
  "Component_createInstance st self fresh x y (Component a b cf children) g =
     (let (instance, g1) =
            new_ComponentInstance (st(self \<mapsto> Component a b cf children))
              ((no_fields [])
                 \<lparr>d_x := Some (defined_or x (rect_x b)),
                  d_y := Some (defined_or y (rect_y b)),
                  d_width := Some (rect_width b),
                  d_height := Some (rect_height b),
                  d_componentId := Some (componentId cf),
                  d_masterComponent := Some self\<rparr>) g
      in ((instance,
           Component a b (cf\<lparr>instances := List.insert fresh (instances cf)\<rparr>) children), g1))"
| "Component_createInstance st self fresh x y obj g = ((obj, obj), g)"

subsection \<open>Objects that hold no value a constructor replaces\<close>

text \<open>
  The constructors read most options with \<open>||\<close>, which replaces a falsy value (\<open>0\<close>,
  the empty string, \<open>null\<close>) by the default, and some constructors overwrite what the
  base constructor stored. The predicates below describe the objects none of whose fields
  would be replaced in this way, and whose derived fields are up to date.

  For the sub-objects: \<open>new Gradient\<close> reads \<open>centerX\<close>, \<open>centerY\<close>, \<open>radiusX\<close>,
  \<open>radiusY\<close> with \<open>|| 0.5\<close>; \<open>new Shadow\<close> reads \<open>color\<close> with \<open>|| 'rgba(0,0,0,0.25)'\<close>,
  \<open>offsetY\<close> with \<open>|| 4\<close> and \<open>blur\<close> with \<open>|| 8\<close>; \<open>new AutoLayout\<close> reads \<open>spacing\<close>
  with \<open>|| 10\<close>. Every other default of theirs is the falsy value itself.
\<close>

definition canonical_Gradient :: "Gradient \<Rightarrow> bool" where
  "canonical_Gradient gr =
     (gr_centerX gr \<noteq> 0 \<and> gr_centerY gr \<noteq> 0 \<and> gr_radiusX gr \<noteq> 0 \<and> gr_radiusY gr \<noteq> 0)"

definition canonical_Shadow :: "Shadow \<Rightarrow> bool" where
  "canonical_Shadow sh = (sh_color sh \<noteq> [] \<and> sh_offsetY sh \<noteq> 0 \<and> sh_blur sh \<noteq> 0)"

text \<open>The base constructor: \<open>id\<close>, \<open>name\<close> and \<open>blendMode\<close> not empty, \<open>stroke\<close> \<open>null\<close>
  or not empty, \<open>width\<close> and \<open>height\<close> not zero.\<close>

definition canonical_Attrs :: "Attrs \<Rightarrow> bool" where
  "canonical_Attrs a =
     (obj_id a \<noteq> [] \<and> obj_name a \<noteq> [] \<and> stroke a \<noteq> Some [] \<and> blendMode a \<noteq> []
      \<and> (case gradient a of None \<Rightarrow> True | Some gr \<Rightarrow> canonical_Gradient gr)
      \<and> list_all canonical_Shadow (shadows a))"

definition canonical_box :: "Rect \<Rightarrow> bool" where
  "canonical_box b = (rect_width b \<noteq> 0 \<and> rect_height b \<noteq> 0)"

definition known_types :: "string list" where
  "known_types =
     [''rectangle'', ''ellipse'', ''line'', ''text'', ''frame'', ''path'', ''group'',
      ''image'', ''component'', ''componentInstance'']"

text \<open>
  Per class:
  \<^item> \<open>Line\<close> sets \<open>fill = null\<close> and reads \<open>stroke\<close> with \<open>|| '#000000'\<close>, \<open>strokeWidth\<close>
    with \<open>|| 2\<close>; its endpoints are read with \<open>??\<close>, which keeps every number;
  \<^item> \<open>TextObject\<close> reads its text properties with \<open>||\<close> and non-empty or non-zero
    defaults;
  \<^item> \<open>Frame\<close> and \<open>Component\<close> read \<open>fill\<close> with \<open>|| '#FFFFFF'\<close>; a \<open>Frame\<close> with auto
    layout lays its children out again after each \<open>addChild\<close>, so its geometry must be
    what adding its children one by one to the frame without children gives;
  \<^item> \<open>Path\<close> recomputes its private bounds from the points;
  \<^item> \<open>Group\<close> sets \<open>fill = null\<close> and recomputes \<open>x\<close>, \<open>y\<close>, \<open>width\<close>, \<open>height\<close> from its
    children when it has some;
  \<^item> \<open>ImageObject\<close> reads \<open>imageData\<close> with \<open>|| null\<close>;
  \<^item> \<open>Component\<close> reads \<open>componentId\<close> with \<open>|| Utils.generateId()\<close>;
  \<^item> an object of the base class carries a type tag that \<open>deserialize\<close> does not know.

  The references to live objects put no condition on the object: the \<open>masterComponent\<close>
  of a \<open>ComponentInstance\<close> and the \<open>instances\<close> of a \<open>Component\<close> may hold anything.
\<close>

fun canonical :: "DesignObject \<Rightarrow> bool" where
  "canonical (Rectangle a b cr) = (canonical_Attrs a \<and> canonical_box b)"
| "canonical (Ellipse a b) = (canonical_Attrs a \<and> canonical_box b)"
| "canonical (Line a b x1 y1 x2 y2) =
     (canonical_Attrs a \<and> canonical_box b \<and> fill a = None \<and> stroke a \<noteq> None
      \<and> strokeWidth a \<noteq> 0)"
| "canonical (TextObject a b tf) =
     (canonical_Attrs a \<and> canonical_box b \<and> text_value tf \<noteq> [] \<and> fontFamily tf \<noteq> []
      \<and> fontSize tf \<noteq> 0 \<and> fontWeight tf \<noteq> [] \<and> lineHeight tf \<noteq> 0 \<and> textAlign tf \<noteq> [])"
| "canonical (Frame a b ff children) =
     (canonical_Attrs a \<and> canonical_box b \<and> fill a \<noteq> None \<and> fill a \<noteq> Some []
      \<and> (case autoLayout ff of
            None \<Rightarrow> True
          | Some al \<Rightarrow> spacing al \<noteq> 0
                     \<and> foldl Frame_addChild (Frame a b ff []) children = Frame a b ff children)
      \<and> list_all canonical children)"
| "canonical (Path a b pf) =
     (canonical_Attrs a \<and> canonical_box b
      \<and> Path_updateBounds (pf\<lparr>p_x := 0, p_y := 0, p_width := 1, p_height := 1\<rparr>) = pf)"
| "canonical (Group a b children) =
     (canonical_Attrs a \<and> fill a = None
      \<and> (if children = [] then canonical_box b else b = children_bounds children)
      \<and> list_all canonical children)"
| "canonical (ImageObject a b imf) =
     (canonical_Attrs a \<and> canonical_box b \<and> imageData imf \<noteq> Some [])"
| "canonical (Component a b cf children) =
     (canonical_Attrs a \<and> canonical_box b \<and> fill a \<noteq> None \<and> fill a \<noteq> Some []
      \<and> componentId cf \<noteq> [] \<and> list_all canonical children)"
| "canonical (ComponentInstance a b ci) = (canonical_Attrs a \<and> canonical_box b)"
| "canonical (Unknown ty a b) =
     (canonical_Attrs a \<and> canonical_box b \<and> ty \<notin> set known_types)"

subsection \<open>What \<open>serialize\<close> does not write\<close>

text \<open>
  \<open>ComponentInstance.serialize\<close> writes the \<open>componentId\<close> and not the \<open>masterComponent\<close>,
  \<open>Component.serialize\<close> does not write the \<open>instances\<close>, and the constructors start
  with \<open>masterComponent = null\<close> and \<open>instances = new Set()\<close> when they are given none.
  \<open>without_links x\<close> is \<open>x\<close> with these references cleared, in \<open>x\<close> and in all its
  descendants, and everything else as it is.
\<close>

fun without_links :: "DesignObject \<Rightarrow> DesignObject" where
  "without_links (Frame a b ff children) = Frame a b ff (map without_links children)"
| "without_links (Group a b children) = Group a b (map without_links children)"
| "without_links (Component a b cf children) =
     Component a b (cf\<lparr>instances := []\<rparr>) (map without_links children)"
| "without_links (ComponentInstance a b ci) = ComponentInstance a b (ci\<lparr>masterComponent := None\<rparr>)"
| "without_links obj = obj"
section \<open>The rotation handle (\<open>utils.ts\<close>, \<open>tools.ts\<close>)\<close>

text \<open>\<open>Math.atan2(y, x)\<close> on reals (no signed zero).\<close>

definition atan2 :: "real \<Rightarrow> real \<Rightarrow> real" where
  "atan2 y x =
     (if 0 < x then arctan (y / x)
      else if x < 0 then (if 0 \<le> y then arctan (y / x) + pi else arctan (y / x) - pi)
      else if 0 < y then pi / 2
      else if y < 0 then - (pi / 2)
      else 0)"

definition getAngle :: "real \<Rightarrow> real \<Rightarrow> real \<Rightarrow> real \<Rightarrow> real" where
  "getAngle x1 y1 x2 y2 = atan2 (y2 - y1) (x2 - x1)"

definition radToDeg :: "real \<Rightarrow> real" where
  "radToDeg radians = radians * 180 / pi"

text \<open>\<open>Math.round\<close> rounds to the nearest integer, a half upwards.\<close>

definition Math_round :: "real \<Rightarrow> real" where
  "Math_round v = of_int \<lfloor>v + 1 / 2\<rfloor>"

text \<open>
  The rotating branch of \<open>SelectTool.onMouseMove\<close>, with \<open>pos\<close> the mouse position in
  canvas coordinates and \<open>shiftKey\<close> the state of the shift key:
  \<^verbatim>\<open>
  if (this.isRotating && this.rotateObject && this.rotateCenter) {
      const angle = Utils.getAngle(this.rotateCenter.x, this.rotateCenter.y, pos.x, pos.y);
      let rotation = Utils.radToDeg(angle) + 90;
      if (e.shiftKey) { rotation = Math.round(rotation / 15) * 15; }
      this.rotateObject.rotation = rotation;
      this.app.render();
      return;
  }
  \<close>
\<close>

definition SelectTool_rotate :: "Point \<Rightarrow> Point \<Rightarrow> bool \<Rightarrow> DesignObject \<Rightarrow> DesignObject" where
  "SelectTool_rotate rotateCenter pos shiftKey rotateObject =
     (let angle = getAngle (pt_x rotateCenter) (pt_y rotateCenter) (pt_x pos) (pt_y pos);
          rotation0 = radToDeg angle + 90;
          rotation1 = (if shiftKey then Math_round (rotation0 / 15) * 15 else rotation0)
      in update_attrs (\<lambda>a. a\<lparr>rotation := rotation1\<rparr>) rotateObject)"

section \<open>Boolean operations (\<open>boolean.js\<close>)\<close>

subsection \<open>Shapes as polygons\<close>

definition ellipseToPolygon :: "real \<Rightarrow> real \<Rightarrow> real \<Rightarrow> real \<Rightarrow> nat \<Rightarrow> Point list" where
  "ellipseToPolygon x y width height segments =
     (let cx = x + width / 2; cy = y + height / 2; rx = width / 2; ry = height / 2
      in map (\<lambda>i. let angle = (real i / real segments) * pi * 2
                   in \<lparr>pt_x = cx + cos angle * rx, pt_y = cy + sin angle * ry\<rparr>)
             [0..<segments])"

text \<open>The four loops of \<open>roundedRectToPolygon\<close> run \<open>i\<close> from \<open>0\<close> to
  \<open>segmentsPerCorner\<close> inclusive.\<close>

definition roundedRectToPolygon ::
  "real \<Rightarrow> real \<Rightarrow> real \<Rightarrow> real \<Rightarrow> real \<Rightarrow> nat \<Rightarrow> Point list" where
  "roundedRectToPolygon x y width height radius segmentsPerCorner =
     (let r = min radius (min (width / 2) (height / 2));
          steps = [0..<Suc segmentsPerCorner];
          frac = (\<lambda>i. (real i / real segmentsPerCorner) * (pi / 2))
      in map (\<lambda>i. let angle = - pi / 2 + frac i
                   in \<lparr>pt_x = x + width - r + cos angle * r, pt_y = y + r + sin angle * r\<rparr>) steps
       @ map (\<lambda>i. let angle = frac i
                   in \<lparr>pt_x = x + width - r + cos angle * r,
                       pt_y = y + height - r + sin angle * r\<rparr>) steps
       @ map (\<lambda>i. let angle = pi / 2 + frac i
                   in \<lparr>pt_x = x + r + cos angle * r, pt_y = y + height - r + sin angle * r\<rparr>) steps
       @ map (\<lambda>i. let angle = pi + frac i
                   in \<lparr>pt_x = x + r + cos angle * r, pt_y = y + r + sin angle * r\<rparr>) steps)"

definition bezierPoint :: "Point \<Rightarrow> Point \<Rightarrow> Point \<Rightarrow> Point \<Rightarrow> real \<Rightarrow> Point" where
  "bezierPoint p0 p1 p2 p3 t =
     (let mt = 1 - t; mt2 = mt * mt; mt3 = mt2 * mt; t2 = t * t; t3 = t2 * t
      in \<lparr>pt_x = mt3 * pt_x p0 + 3 * mt2 * t * pt_x p1 + 3 * mt * t2 * pt_x p2 + t3 * pt_x p3,
          pt_y = mt3 * pt_y p0 + 3 * mt2 * t * pt_y p1 + 3 * mt * t2 * pt_y p2 + t3 * pt_y p3\<rparr>)"

text \<open>
  \<^verbatim>\<open>
  static pathToPolygon(path, segmentsPerCurve = 8) {
      const points = [];
      const pathPoints = path.points;
      for (let i = 0; i < pathPoints.length; i++) {
          const current = pathPoints[i];
          const next = pathPoints[(i + 1) % pathPoints.length];
          points.push({ x: current.x, y: current.y });
          if (current.handleOut || next.handleIn) {
              const p0 = { x: current.x, y: current.y };
              const p1 = current.handleOut || p0;
              const p2 = next.handleIn || { x: next.x, y: next.y };
              const p3 = { x: next.x, y: next.y };
              for (let t = 1; t < segmentsPerCurve; t++) {
                  const tNorm = t / segmentsPerCurve;
                  points.push(this.bezierPoint(p0, p1, p2, p3, tNorm));
              }
          }
          if (!path.closed && i === pathPoints.length - 1) {
              points.push({ x: next.x, y: next.y });
          }
      }
      return points;
  }
  \<close>
\<close>

definition anchor :: "PathPoint \<Rightarrow> Point" where
  "anchor p = \<lparr>pt_x = pp_x p, pt_y = pp_y p\<rparr>"

definition pathToPolygon :: "PathPoint list \<Rightarrow> bool \<Rightarrow> nat \<Rightarrow> Point list" where
  "pathToPolygon pathPoints isClosed segmentsPerCurve =
     concat (map (\<lambda>i.
        let current = pathPoints ! i;
            next = pathPoints ! ((i + 1) mod length pathPoints)
        in [anchor current]
           @ (if handleOut current \<noteq> None \<or> handleIn next \<noteq> None then
                let p0 = anchor current;
                    p1 = (case handleOut current of Some h \<Rightarrow> h | None \<Rightarrow> p0);
                    p2 = (case handleIn next of Some h \<Rightarrow> h | None \<Rightarrow> anchor next);
                    p3 = anchor next
                in map (\<lambda>t. bezierPoint p0 p1 p2 p3 (real t / real segmentsPerCurve))
                       [1..<segmentsPerCurve]
              else [])
           @ (if \<not> isClosed \<and> i = length pathPoints - 1 then [anchor next] else []))
        [0..<length pathPoints])"

text \<open>
  \<^verbatim>\<open>
  static objectToPolygon(obj) {
      if (obj.type === 'rectangle') {
          const { x, y, width, height, cornerRadius } = obj;
          if (cornerRadius && cornerRadius > 0) {
              return this.roundedRectToPolygon(x, y, width, height, cornerRadius);
          }
          return [ { x: x, y: y }, { x: x + width, y: y },
                   { x: x + width, y: y + height }, { x: x, y: y + height } ];
      } else if (obj.type === 'ellipse') {
          return this.ellipseToPolygon(obj.x, obj.y, obj.width, obj.height, 32);
      } else if (obj.type === 'path') {
          return this.pathToPolygon(obj);
      }
      return [];
  }
  \<close>
  An object of the base class that carries one of the three tags has no \<open>cornerRadius\<close>
  and no \<open>points\<close>; with the tag \<open>path\<close> the read of \<open>pathPoints.length\<close> fails.
\<close>

definition corners :: "Rect \<Rightarrow> Point list" where
  "corners b =
     [\<lparr>pt_x = rect_x b, pt_y = rect_y b\<rparr>,
      \<lparr>pt_x = rect_x b + rect_width b, pt_y = rect_y b\<rparr>,
      \<lparr>pt_x = rect_x b + rect_width b, pt_y = rect_y b + rect_height b\<rparr>,
      \<lparr>pt_x = rect_x b, pt_y = rect_y b + rect_height b\<rparr>]"

fun objectToPolygon :: "DesignObject \<Rightarrow> error + Point list" where
  "objectToPolygon (Rectangle a b cornerRadius) =
     (if cornerRadius \<noteq> 0 \<and> cornerRadius > 0
      then Inr (roundedRectToPolygon (rect_x b) (rect_y b) (rect_width b) (rect_height b)
                  cornerRadius 8)
      else Inr (corners b))"
| "objectToPolygon (Ellipse a b) =
     Inr (ellipseToPolygon (rect_x b) (rect_y b) (rect_width b) (rect_height b) 32)"
| "objectToPolygon (Path a b pf) = Inr (pathToPolygon (points pf) (closed_flag pf) 8)"
| "objectToPolygon (Unknown ty a b) =
     (if ty = ''rectangle'' then Inr (corners b)
      else if ty = ''ellipse''
      then Inr (ellipseToPolygon (rect_x b) (rect_y b) (rect_width b) (rect_height b) 32)
      else if ty = ''path'' then Inl TypeError
      else Inr [])"
| "objectToPolygon obj = Inr []"

subsection \<open>Point in polygon, segment intersection\<close>

text \<open>
  \<^verbatim>\<open>
  static pointInPolygon(point, polygon) {
      let inside = false;
      const n = polygon.length;
      for (let i = 0, j = n - 1; i < n; j = i++) {
          const xi = polygon[i].x, yi = polygon[i].y;
          const xj = polygon[j].x, yj = polygon[j].y;
          if (((yi > point.y) !== (yj > point.y)) &&
              (point.x < (xj - xi) * (point.y - yi) / (yj - yi) + xi)) {
              inside = !inside;
          }
      }
      return inside;
  }
  \<close>
  The loop is a fold over the indices \<open>i\<close>, with \<open>j\<close> the index before \<open>i\<close> (the last
  one for \<open>i = 0\<close>).
\<close>

definition pointInPolygon :: "Point \<Rightarrow> Point list \<Rightarrow> bool" where
  "pointInPolygon point polygon =
     (let n = length polygon
      in foldl (\<lambda>inside i.
           let j = (if i = 0 then n - 1 else i - 1);
               xi = pt_x (polygon ! i); yi = pt_y (polygon ! i);
               xj = pt_x (polygon ! j); yj = pt_y (polygon ! j)
           in if ((yi > pt_y point) \<noteq> (yj > pt_y point))
                 \<and> pt_x point < (xj - xi) * (pt_y point - yi) / (yj - yi) + xi
              then \<not> inside else inside)
         False [0..<n])"

definition lineIntersection :: "Point \<Rightarrow> Point \<Rightarrow> Point \<Rightarrow> Point \<Rightarrow> Point option" where
  "lineIntersection p1 p2 p3 p4 =
     (let x1 = pt_x p1; y1 = pt_y p1; x2 = pt_x p2; y2 = pt_y p2;
          x3 = pt_x p3; y3 = pt_y p3; x4 = pt_x p4; y4 = pt_y p4;
          denom = (x1 - x2) * (y3 - y4) - (y1 - y2) * (x3 - x4)
      in if \<bar>denom\<bar> < 0.0001 then None
         else
           let t = ((x1 - x3) * (y3 - y4) - (y1 - y3) * (x3 - x4)) / denom;
               u = - ((x1 - x2) * (y1 - y3) - (y1 - y2) * (x1 - x3)) / denom
           in if t \<ge> 0 \<and> t \<le> 1 \<and> u \<ge> 0 \<and> u \<le> 1
              then Some \<lparr>pt_x = x1 + t * (x2 - x1), pt_y = y1 + t * (y2 - y1)\<rparr>
              else None)"

subsection \<open>Convex hull (Graham scan)\<close>

text \<open>
  \<^verbatim>\<open>
  let lowest = 0;
  for (let i = 1; i < points.length; i++) {
      if (points[i].y < points[lowest].y ||
          (points[i].y === points[lowest].y && points[i].x < points[lowest].x)) {
          lowest = i;
      }
  }
  \<close>
\<close>

function find_lowest :: "Point list \<Rightarrow> nat \<Rightarrow> nat \<Rightarrow> nat" where
  "find_lowest pts lowest i =
     (if i < length pts
      then find_lowest pts
             (if pt_y (pts ! i) < pt_y (pts ! lowest)
                 \<or> (pt_y (pts ! i) = pt_y (pts ! lowest)
                     \<and> pt_x (pts ! i) < pt_x (pts ! lowest))
              then i else lowest)
             (i + 1)
      else lowest)"
  by pat_completeness auto
termination
  by (relation "measure (\<lambda>(pts, lowest, i). length pts - i)") auto

text \<open>
  The order in which that loop compares two points: \<open>p\<close> lies below \<open>q\<close>, or at the
  same height and to its left.
\<close>

definition lower :: "Point \<Rightarrow> Point \<Rightarrow> bool" where
  "lower p q = (pt_y p < pt_y q \<or> (pt_y p = pt_y q \<and> pt_x p < pt_x q))"

text \<open>
  The comparison function of the sort:
  \<^verbatim>\<open>
  (a, b) => {
      const angleA = Math.atan2(a.y - pivot.y, a.x - pivot.x);
      const angleB = Math.atan2(b.y - pivot.y, b.x - pivot.x);
      if (angleA !== angleB) return angleA - angleB;
      const distA = (a.x - pivot.x) ** 2 + (a.y - pivot.y) ** 2;
      const distB = (b.x - pivot.x) ** 2 + (b.y - pivot.y) ** 2;
      return distA - distB;
  }
  \<close>
\<close>

definition polar_compare :: "Point \<Rightarrow> Point \<Rightarrow> Point \<Rightarrow> real" where
  "polar_compare pivot a b =
     (let angleA = atan2 (pt_y a - pt_y pivot) (pt_x a - pt_x pivot);
          angleB = atan2 (pt_y b - pt_y pivot) (pt_x b - pt_x pivot)
      in if angleA \<noteq> angleB then angleA - angleB
         else
           let distA = (pt_x a - pt_x pivot)\<^sup>2 + (pt_y a - pt_y pivot)\<^sup>2;
               distB = (pt_x b - pt_x pivot)\<^sup>2 + (pt_y b - pt_y pivot)\<^sup>2
           in distA - distB)"

text \<open>
  \<open>Array.prototype.sort\<close> with a comparison function is stable: it orders the elements
  by the function and keeps the order of elements that compare equal. The model is a
  stable insertion sort.
\<close>

fun insert_sorted :: "('a \<Rightarrow> 'a \<Rightarrow> real) \<Rightarrow> 'a \<Rightarrow> 'a list \<Rightarrow> 'a list" where
  "insert_sorted compare v [] = [v]"
| "insert_sorted compare v (w # ws) =
     (if compare v w \<le> 0 then v # w # ws else w # insert_sorted compare v ws)"

definition sort_with :: "('a \<Rightarrow> 'a \<Rightarrow> real) \<Rightarrow> 'a list \<Rightarrow> 'a list" where
  "sort_with compare vs = foldr (insert_sorted compare) vs []"

text \<open>
  The inner loop of the scan, for one \<open>point\<close>:
  \<^verbatim>\<open>
  while (hull.length > 1) {
      const top = hull[hull.length - 1];
      const second = hull[hull.length - 2];
      const cross = (top.x - second.x) * (point.y - second.y) -
                    (top.y - second.y) * (point.x - second.x);
      if (cross <= 0) { hull.pop(); } else { break; }
  }
  hull.push(point);
  \<close>
\<close>

function pop_non_left :: "Point list \<Rightarrow> Point \<Rightarrow> Point list" where
  "pop_non_left stack point =
     (if length stack > 1 then
        let top = stack ! (length stack - 1);
            second = stack ! (length stack - 2);
            cross = (pt_x top - pt_x second) * (pt_y point - pt_y second)
                    - (pt_y top - pt_y second) * (pt_x point - pt_x second)
        in if cross \<le> 0 then pop_non_left (butlast stack) point else stack
      else stack)"
  by pat_completeness auto
termination
  by (relation "measure (\<lambda>(stack, point). length stack)") auto

definition hull_step :: "Point list \<Rightarrow> Point \<Rightarrow> Point list" where
  "hull_step stack point = pop_non_left stack point @ [point]"

text \<open>
  \<^verbatim>\<open>
  static convexHull(points) {
      if (points.length < 3) return points;
      ... lowest ...
      [points[0], points[lowest]] = [points[lowest], points[0]];
      const pivot = points[0];
      const sorted = points.slice(1).sort(...);
      const hull = [pivot];
      for (const point of sorted) { ... }
      return hull;
  }
  \<close>
\<close>

definition convexHull :: "Point list \<Rightarrow> Point list" where
  "convexHull pts =
     (if length pts < 3 then pts
      else
        let lowest = find_lowest pts 0 1;
            pts' = pts[0 := pts ! lowest, lowest := pts ! 0];
            pivot = pts' ! 0;
            sorted = sort_with (polar_compare pivot) (drop 1 pts')
        in foldl hull_step [pivot] sorted)"

subsection \<open>The four operations\<close>

text \<open>
  \<open>boolean.js\<close> belongs to the JavaScript sources, whose \<open>Path\<close> differs from the one
  of \<open>objects.ts\<close> in two places: the base constructor reads \<open>fill\<close> with
  \<open>|| '#5B5BFF'\<close>, and the constructor does not call \<open>updateBounds\<close> (while the private
  bounds are unset, the \<open>bounds\<close> getter reads them as \<open>0, 0, 1, 1\<close>).
\<close>

definition js_new_Path :: "DesignObjectFields \<Rightarrow> idgen \<Rightarrow> DesignObject \<times> idgen" where
  "js_new_Path options g =
     (let ((a, b), g1) = new_DesignObject ''path'' options g
      in (Path (a\<lparr>fill := Some (or_nstr (d_fill options) ''#5B5BFF'')\<rparr>) b
            \<lparr>points = defined_or (d_points options) [],
             closed_flag = or_bool (d_closed options) False,
             p_x = 0, p_y = 0, p_width = 1, p_height = 1\<rparr>, g1))"

text \<open>\<open>path.points.push({x: p.x, y: p.y, handleIn: null, handleOut: null})\<close> for every
  point of the polygon, then \<open>path.updateBounds()\<close>.\<close>

fun push_polygon :: "Point list \<Rightarrow> DesignObject \<Rightarrow> DesignObject" where
  "push_polygon polygon (Path a b pf) =
     Path a b (Path_updateBounds
       (pf\<lparr>points := points pf
              @ map (\<lambda>p. \<lparr>pp_x = pt_x p, pp_y = pt_y p, handleIn = None, handleOut = None\<rparr>)
                    polygon\<rparr>))"
| "push_polygon polygon obj = obj"

text \<open>
  \<^verbatim>\<open>
  static polygonToPath(polygon, fill, stroke) {
      const path = new Path({ fill: fill, stroke: stroke, strokeWidth: stroke ? 1 : 0,
                              closed: true, name: 'Boolean Result' });
      polygon.forEach(p => { path.points.push({...}); });
      path.updateBounds();
      return path;
  }
  \<close>
\<close>

definition truthy :: "string option \<Rightarrow> bool" where
  "truthy s = (case s of None \<Rightarrow> False | Some v \<Rightarrow> v \<noteq> [])"

definition polygonToPath ::
  "Point list \<Rightarrow> string option \<Rightarrow> string option \<Rightarrow> idgen \<Rightarrow> DesignObject \<times> idgen" where
  "polygonToPath polygon fill' stroke' g =
     (let (path, g1) =
            js_new_Path ((no_fields [])
              \<lparr>d_fill := Some fill', d_stroke := Some stroke',
               d_strokeWidth := Some (if truthy stroke' then 1 else 0),
               d_closed := Some True, d_name := Some ''Boolean Result''\<rparr>) g
      in (push_polygon polygon path, g1))"

text \<open>\<open>obj1.fill || obj2.fill\<close>.\<close>

definition fill_of_either :: "DesignObject \<Rightarrow> DesignObject \<Rightarrow> string option" where
  "fill_of_either obj1 obj2 =
     (if truthy (fill (attrs_of obj1)) then fill (attrs_of obj1) else fill (attrs_of obj2))"

text \<open>
  \<^verbatim>\<open>
  static union(obj1, obj2) {
      const poly1 = this.objectToPolygon(obj1);
      const poly2 = this.objectToPolygon(obj2);
      const allPoints = [...poly1, ...poly2];
      const hull = this.convexHull(allPoints);
      return this.polygonToPath(hull, obj1.fill || obj2.fill, obj1.stroke);
  }
  \<close>
\<close>

definition union_op ::
  "DesignObject \<Rightarrow> DesignObject \<Rightarrow> idgen \<Rightarrow> error + (DesignObject option \<times> idgen)" where
  "union_op obj1 obj2 g =
     (case objectToPolygon obj1 of
        Inl e \<Rightarrow> Inl e
      | Inr poly1 \<Rightarrow>
          (case objectToPolygon obj2 of
             Inl e \<Rightarrow> Inl e
           | Inr poly2 \<Rightarrow>
               (let allPoints = poly1 @ poly2;
                    hullPoints = convexHull allPoints;
                    (path, g1) = polygonToPath hullPoints (fill_of_either obj1 obj2)
                                   (stroke (attrs_of obj1)) g
                in Inr (Some path, g1))))"

text \<open>
  \<^verbatim>\<open>
  static subtract(obj1, obj2) {
      const poly1 = this.objectToPolygon(obj1);
      const poly2 = this.objectToPolygon(obj2);
      const path = new Path({ fill: obj1.fill, stroke: obj1.stroke,
                              strokeWidth: obj1.strokeWidth, closed: true,
                              name: 'Subtracted Shape' });
      poly1.forEach(p => { path.points.push({...}); });
      path.updateBounds();
      return path;
  }
  \<close>
\<close>

definition subtract_op ::
  "DesignObject \<Rightarrow> DesignObject \<Rightarrow> idgen \<Rightarrow> error + (DesignObject option \<times> idgen)" where
  "subtract_op obj1 obj2 g =
     (case objectToPolygon obj1 of
        Inl e \<Rightarrow> Inl e
      | Inr poly1 \<Rightarrow>
          (case objectToPolygon obj2 of
             Inl e \<Rightarrow> Inl e
           | Inr poly2 \<Rightarrow>
               (let (path, g1) =
                      js_new_Path ((no_fields [])
                        \<lparr>d_fill := Some (fill (attrs_of obj1)),
                         d_stroke := Some (stroke (attrs_of obj1)),
                         d_strokeWidth := Some (strokeWidth (attrs_of obj1)),
                         d_closed := Some True, d_name := Some ''Subtracted Shape''\<rparr>) g
                in Inr (Some (push_polygon poly1 path), g1))))"

text \<open>
  \<open>intersect\<close> collects the points of each polygon inside the other and the
  intersections of every edge of the first with every edge of the second:
  \<^verbatim>\<open>
  for (let i = 0; i < poly1.length; i++) {
      const p1 = poly1[i];  const p2 = poly1[(i + 1) % poly1.length];
      for (let j = 0; j < poly2.length; j++) {
          const p3 = poly2[j];  const p4 = poly2[(j + 1) % poly2.length];
          const intersection = this.lineIntersection(p1, p2, p3, p4);
          if (intersection) { intersectionPoints.push(intersection); }
      }
  }
  if (intersectionPoints.length < 3) { return null; }
  const hull = this.convexHull(intersectionPoints);
  return this.polygonToPath(hull, obj1.fill || obj2.fill, obj1.stroke);
  \<close>
\<close>

definition edge_intersections :: "Point list \<Rightarrow> Point list \<Rightarrow> Point list" where
  "edge_intersections poly1 poly2 =
     concat (map (\<lambda>i.
        List.map_filter (\<lambda>j.
           lineIntersection (poly1 ! i) (poly1 ! ((i + 1) mod length poly1))
                            (poly2 ! j) (poly2 ! ((j + 1) mod length poly2)))
          [0..<length poly2])
        [0..<length poly1])"

definition intersect_op ::
  "DesignObject \<Rightarrow> DesignObject \<Rightarrow> idgen \<Rightarrow> error + (DesignObject option \<times> idgen)" where
  "intersect_op obj1 obj2 g =
     (case objectToPolygon obj1 of
        Inl e \<Rightarrow> Inl e
      | Inr poly1 \<Rightarrow>
          (case objectToPolygon obj2 of
             Inl e \<Rightarrow> Inl e
           | Inr poly2 \<Rightarrow>
               (let intersectionPoints =
                      filter (\<lambda>p. pointInPolygon p poly2) poly1
                      @ filter (\<lambda>p. pointInPolygon p poly1) poly2
                      @ edge_intersections poly1 poly2
                in if length intersectionPoints < 3 then Inr (None, g)
                   else
                     let hullPoints = convexHull intersectionPoints;
                         (path, g1) = polygonToPath hullPoints (fill_of_either obj1 obj2)
                                        (stroke (attrs_of obj1)) g
                     in Inr (Some path, g1))))"

definition exclude_op ::
  "DesignObject \<Rightarrow> DesignObject \<Rightarrow> idgen \<Rightarrow> error + (DesignObject option \<times> idgen)" where
  "exclude_op obj1 obj2 g = union_op obj1 obj2 g"

section \<open>The application object (\<open>app.js\<close>) and \<open>performOperation\<close>\<close>

subsection \<open>Serialized objects as plain values\<close>

text \<open>
  \<open>saveState\<close> hands \<open>this.objects.map(obj => obj.serialize())\<close> to the history
  engine. \<open>encode\<close> writes a \<open>DesignObjectData\<close> as the plain object it is: one property
  per value that is present, \<open>null\<close> as \<open>JNull\<close>. (\<open>serialize\<close> never writes
  \<open>masterComponent\<close>, which has no plain form.)
\<close>

definition property :: "string \<Rightarrow> ('a \<Rightarrow> json) \<Rightarrow> 'a option \<Rightarrow> (string \<times> json) list" where
  "property key enc v = (case v of None \<Rightarrow> [] | Some w \<Rightarrow> [(key, enc w)])"

definition nullable :: "('a \<Rightarrow> json) \<Rightarrow> 'a option \<Rightarrow> json" where
  "nullable enc v = (case v of None \<Rightarrow> JNull | Some w \<Rightarrow> enc w)"

definition encode_Point :: "Point \<Rightarrow> json" where
  "encode_Point p = JObj [(''x'', JNum (pt_x p)), (''y'', JNum (pt_y p))]"

definition encode_PathPoint :: "PathPoint \<Rightarrow> json" where
  "encode_PathPoint p =
     JObj [(''x'', JNum (pp_x p)), (''y'', JNum (pp_y p)),
           (''handleIn'', nullable encode_Point (handleIn p)),
           (''handleOut'', nullable encode_Point (handleOut p))]"

definition encode_GradientStop :: "GradientStop \<Rightarrow> json" where
  "encode_GradientStop s = JObj [(''offset'', JNum (stop_offset s)), (''color'', JStr (stop_color s))]"

fun encode_GradientType :: "GradientType \<Rightarrow> json" where
  "encode_GradientType Linear = JStr ''linear''"
| "encode_GradientType Radial = JStr ''radial''"

definition encode_Gradient :: "GradientData \<Rightarrow> json" where
  "encode_Gradient d =
     JObj (property ''type'' encode_GradientType (gd_type d)
         @ property ''angle'' JNum (gd_angle d)
         @ property ''stops'' (\<lambda>ss. JArr (map encode_GradientStop ss)) (gd_stops d)
         @ property ''centerX'' JNum (gd_centerX d)
         @ property ''centerY'' JNum (gd_centerY d)
         @ property ''radiusX'' JNum (gd_radiusX d)
         @ property ''radiusY'' JNum (gd_radiusY d))"

fun encode_ShadowType :: "ShadowType \<Rightarrow> json" where
  "encode_ShadowType Drop = JStr ''drop''"
| "encode_ShadowType Inner = JStr ''inner''"

definition encode_Shadow :: "ShadowData \<Rightarrow> json" where
  "encode_Shadow d =
     JObj (property ''type'' encode_ShadowType (sd_type d)
         @ property ''color'' JStr (sd_color d)
         @ property ''offsetX'' JNum (sd_offsetX d)
         @ property ''offsetY'' JNum (sd_offsetY d)
         @ property ''blur'' JNum (sd_blur d)
         @ property ''spread'' JNum (sd_spread d)
         @ property ''visible'' JBool (sd_visible d))"

fun encode_Horizontal :: "HorizontalConstraint \<Rightarrow> json" where
  "encode_Horizontal H_left = JStr ''left''"
| "encode_Horizontal H_right = JStr ''right''"
| "encode_Horizontal H_center = JStr ''center''"
| "encode_Horizontal H_scale = JStr ''scale''"
| "encode_Horizontal H_left_right = JStr ''left-right''"

fun encode_Vertical :: "VerticalConstraint \<Rightarrow> json" where
  "encode_Vertical V_top = JStr ''top''"
| "encode_Vertical V_bottom = JStr ''bottom''"
| "encode_Vertical V_center = JStr ''center''"
| "encode_Vertical V_scale = JStr ''scale''"
| "encode_Vertical V_top_bottom = JStr ''top-bottom''"

definition encode_Constraints :: "ConstraintsData \<Rightarrow> json" where
  "encode_Constraints d =
     JObj (property ''horizontal'' encode_Horizontal (cd_horizontal d)
         @ property ''vertical'' encode_Vertical (cd_vertical d)
         @ property ''originalX'' JNum (cd_originalX d)
         @ property ''originalY'' JNum (cd_originalY d)
         @ property ''originalWidth'' JNum (cd_originalWidth d)
         @ property ''originalHeight'' JNum (cd_originalHeight d)
         @ property ''originalParentWidth'' JNum (cd_originalParentWidth d)
         @ property ''originalParentHeight'' JNum (cd_originalParentHeight d))"

fun encode_Direction :: "Direction \<Rightarrow> json" where
  "encode_Direction Horizontal = JStr ''horizontal''"
| "encode_Direction Vertical = JStr ''vertical''"

fun encode_PrimaryAxisAlign :: "PrimaryAxisAlign \<Rightarrow> json" where
  "encode_PrimaryAxisAlign P_start = JStr ''start''"
| "encode_PrimaryAxisAlign P_center = JStr ''center''"
| "encode_PrimaryAxisAlign P_end = JStr ''end''"
| "encode_PrimaryAxisAlign P_space_between = JStr ''space-between''"

fun encode_CounterAxisAlign :: "CounterAxisAlign \<Rightarrow> json" where
  "encode_CounterAxisAlign C_start = JStr ''start''"
| "encode_CounterAxisAlign C_center = JStr ''center''"
| "encode_CounterAxisAlign C_end = JStr ''end''"
| "encode_CounterAxisAlign C_stretch = JStr ''stretch''"

fun encode_Sizing :: "Sizing \<Rightarrow> json" where
  "encode_Sizing Fixed = JStr ''fixed''"
| "encode_Sizing Hug = JStr ''hug''"

definition encode_AutoLayout :: "AutoLayoutData \<Rightarrow> json" where
  "encode_AutoLayout d =
     JObj (property ''direction'' encode_Direction (ald_direction d)
         @ property ''primaryAxisAlign'' encode_PrimaryAxisAlign (ald_primaryAxisAlign d)
         @ property ''counterAxisAlign'' encode_CounterAxisAlign (ald_counterAxisAlign d)
         @ property ''spacing'' JNum (ald_spacing d)
         @ property ''paddingTop'' JNum (ald_paddingTop d)
         @ property ''paddingRight'' JNum (ald_paddingRight d)
         @ property ''paddingBottom'' JNum (ald_paddingBottom d)
         @ property ''paddingLeft'' JNum (ald_paddingLeft d)
         @ property ''primaryAxisSizing'' encode_Sizing (ald_primaryAxisSizing d)
         @ property ''counterAxisSizing'' encode_Sizing (ald_counterAxisSizing d))"

fun encode_ImageFit :: "ImageFit \<Rightarrow> json" where
  "encode_ImageFit Cover = JStr ''cover''"
| "encode_ImageFit Contain = JStr ''contain''"
| "encode_ImageFit Fill = JStr ''fill''"
| "encode_ImageFit NoFit = JStr ''none''"

definition encode_fields :: "DesignObjectFields \<Rightarrow> (string \<times> json) list" where
  "encode_fields d =
     property ''id'' JStr (d_id d)
   @ [(''type'', JStr (d_type d))]
   @ property ''name'' JStr (d_name d)
   @ property ''x'' JNum (d_x d)
   @ property ''y'' JNum (d_y d)
   @ property ''width'' JNum (d_width d)
   @ property ''height'' JNum (d_height d)
   @ property ''rotation'' JNum (d_rotation d)
   @ property ''fill'' (nullable JStr) (d_fill d)
   @ property ''fillOpacity'' JNum (d_fillOpacity d)
   @ property ''stroke'' (nullable JStr) (d_stroke d)
   @ property ''strokeWidth'' JNum (d_strokeWidth d)
   @ property ''strokeOpacity'' JNum (d_strokeOpacity d)
   @ property ''visible'' JBool (d_visible d)
   @ property ''locked'' JBool (d_locked d)
   @ property ''opacity'' JNum (d_opacity d)
   @ property ''blendMode'' JStr (d_blendMode d)
   @ property ''gradient'' (nullable encode_Gradient) (d_gradient d)
   @ property ''shadows'' (\<lambda>ss. JArr (map encode_Shadow ss)) (d_shadows d)
   @ property ''blur'' JNum (d_blur d)
   @ property ''constraints'' (nullable encode_Constraints) (d_constraints d)
   @ property ''x1'' JNum (d_x1 d)
   @ property ''y1'' JNum (d_y1 d)
   @ property ''x2'' JNum (d_x2 d)
   @ property ''y2'' JNum (d_y2 d)
   @ property ''text'' JStr (d_text d)
   @ property ''fontFamily'' JStr (d_fontFamily d)
   @ property ''fontSize'' JNum (d_fontSize d)
   @ property ''fontWeight'' JStr (d_fontWeight d)
   @ property ''lineHeight'' JNum (d_lineHeight d)
   @ property ''textAlign'' JStr (d_textAlign d)
   @ property ''points'' (\<lambda>ps. JArr (map encode_PathPoint ps)) (d_points d)
   @ property ''closed'' JBool (d_closed d)
   @ property ''src'' JStr (d_src d)
   @ property ''imageData'' (nullable JStr) (d_imageData d)
   @ property ''fit'' encode_ImageFit (d_fit d)
   @ property ''clipContent'' JBool (d_clipContent d)
   @ property ''cornerRadius'' JNum (d_cornerRadius d)
   @ property ''autoLayout'' (nullable encode_AutoLayout) (d_autoLayout d)
   @ property ''componentId'' JStr (d_componentId d)
   @ property ''description'' JStr (d_description d)
   @ property ''overrides'' (\<lambda>ov. JObj (map (map_prod (\<lambda>key. key) JBool) ov)) (d_overrides d)"

fun encode :: "DesignObjectData \<Rightarrow> json" where
  "encode (Data d kids) =
     JObj (encode_fields d
           @ (case kids of None \<Rightarrow> [] | Some childData \<Rightarrow> [(''children'', JArr (map encode childData))]))"

subsection \<open>The application\<close>

text \<open>
  Of \<open>FigmaApp\<close> the model keeps the document (\<open>objects\<close>), the selection and the
  history engine; the renderer and the panels only display them. An array of objects is
  a list of their values, and the object an \<open>indexOf\<close> finds is the first equal one.
\<close>

record App =
  app_objects :: "DesignObject list"
  selectedObjects :: "DesignObject list"
  history :: HistoryManager

text \<open>
  The application runs the classes of \<open>objects.js\<close>. They declare no class fields, so
  there the accessors of \<open>Line\<close> are reached: \<open>x\<close>, \<open>y\<close>, \<open>width\<close>, \<open>height\<close> of a
  \<open>Line\<close> read its bounds and nothing is stored under these names. \<open>js_view obj\<close> is
  \<open>obj\<close> with the four fields of every \<open>Line\<close> in it holding what these reads give.
\<close>

fun js_view :: "DesignObject \<Rightarrow> DesignObject" where
  "js_view (Line a b x1 y1 x2 y2) = Line a (Line_bounds x1 y1 x2 y2) x1 y1 x2 y2"
| "js_view (Frame a b ff children) = Frame a b ff (map js_view children)"
| "js_view (Group a b children) = Group a b (map js_view children)"
| "js_view (Component a b cf children) = Component a b cf (map js_view children)"
| "js_view obj = obj"

text \<open>
  \<^verbatim>\<open>
  saveState() {
      this.history.push({
          objects: this.objects.map(obj => obj.serialize()),
          selectedIds: this.selectedObjects.map(obj => obj.id)
      });
      this.updateHistoryButtons();
  }
  \<close>
\<close>

definition saveState :: "App \<Rightarrow> App" where
  "saveState app =
     app\<lparr>history :=
           push (history app)
             \<lparr>hs_objects = map (\<lambda>obj. encode (serialize (js_view obj))) (app_objects app),
              hs_selectedIds = map (\<lambda>obj. obj_id (attrs_of obj)) (selectedObjects app)\<rparr>\<rparr>"

text \<open>
  \<^verbatim>\<open>
  addObject(object) { this.objects.push(object); ... }
  removeObject(object) {
      const index = this.objects.indexOf(object);
      if (index !== -1) { this.objects.splice(index, 1); ... }
  }
  selectObjects(objects) { this.selectedObjects = objects; ... }
  \<close>
\<close>

definition addObject :: "App \<Rightarrow> DesignObject \<Rightarrow> App" where
  "addObject app object = app\<lparr>app_objects := app_objects app @ [object]\<rparr>"

definition removeObject :: "App \<Rightarrow> DesignObject \<Rightarrow> App" where
  "removeObject app object = app\<lparr>app_objects := remove1 object (app_objects app)\<rparr>"

definition selectObjects :: "App \<Rightarrow> DesignObject list \<Rightarrow> App" where
  "selectObjects app objs = app\<lparr>selectedObjects := objs\<rparr>"

subsection \<open>\<open>BooleanOperations.performOperation\<close>\<close>

text \<open>
  \<^verbatim>\<open>
  static performOperation(app, operation) {
      const selected = app.selectedObjects;
      if (selected.length !== 2) {
          console.warn('Boolean operations require exactly 2 selected objects');
          return null;
      }
      const obj1 = selected[0];
      const obj2 = selected[1];
      const validTypes = ['rectangle', 'ellipse', 'path'];
      if (!validTypes.includes(obj1.type) || !validTypes.includes(obj2.type)) {
          console.warn('Boolean operations only work with rectangles, ellipses, and paths');
          return null;
      }
      let result = null;
      switch (operation) {
          case 'union': result = this.union(obj1, obj2); break;
          case 'subtract': result = this.subtract(obj1, obj2); break;
          case 'intersect': result = this.intersect(obj1, obj2); break;
          case 'exclude': result = this.exclude(obj1, obj2); break;
      }
      if (result) {
          app.saveState();
          app.removeObject(obj1);
          app.removeObject(obj2);
          app.addObject(result);
          app.selectObjects([result]);
      }
      return result;
  }
  \<close>
  The value of the model is the returned object (\<open>None\<close> for \<open>null\<close>), the messages
  passed to \<open>console.warn\<close>, the application afterwards and the rest of the identifier
  stream; \<open>Inl\<close> is an exception that leaves the function.
\<close>

definition validTypes :: "string list" where
  "validTypes = [''rectangle'', ''ellipse'', ''path'']"

definition performOperation ::
  "App \<Rightarrow> string \<Rightarrow> idgen \<Rightarrow> error + (DesignObject option \<times> string list \<times> App \<times> idgen)" where
  "performOperation app operation g =
     (let selected = selectedObjects app
      in if length selected \<noteq> 2
         then Inr (None, [''Boolean operations require exactly 2 selected objects''], app, g)
         else
           let obj1 = selected ! 0; obj2 = selected ! 1
           in if type_of obj1 \<notin> set validTypes \<or> type_of obj2 \<notin> set validTypes
              then Inr (None,
                        [''Boolean operations only work with rectangles, ellipses, and paths''],
                        app, g)
              else
                (case (if operation = ''union'' then union_op obj1 obj2 g
                       else if operation = ''subtract'' then subtract_op obj1 obj2 g
                       else if operation = ''intersect'' then intersect_op obj1 obj2 g
                       else if operation = ''exclude'' then exclude_op obj1 obj2 g
                       else Inr (None, g)) of
                   Inl e \<Rightarrow> Inl e
                 | Inr (None, g1) \<Rightarrow> Inr (None, [], app, g1)
                 | Inr (Some result, g1) \<Rightarrow>
                     (let app1 = saveState app;
                          app2 = removeObject app1 obj1;
                          app3 = removeObject app2 obj2;
                          app4 = addObject app3 result;
                          app5 = selectObjects app4 [result]
                      in Inr (Some result, [], app5, g1))))"

section \<open>Properties of the history engine\<close>

lemma deepClone_same: "deepClone v = v"
proof (induction v)
  case (JArr items)
  then show ?case by (simp add: map_idI)
next
  case (JObj props)
  have "map (map_prod (\<lambda>key. key) deepClone) props = props"
  proof (rule map_idI)
    fix p assume mem: "p \<in> set props"
    obtain key v where p: "p = (key, v)" by (cases p)
    have "deepClone v = v"
      using JObj [of p v] mem p by simp
    then show "map_prod (\<lambda>key. key) deepClone p = p"
      using p by simp
  qed
  then show ?case by simp
qed simp_all

lemma deepClone_state_same: "deepClone_state s = s"
  by (simp add: deepClone_state_def deepClone_same map_idI)

lemma push_not_applying:
  "\<not> isApplying h \<Longrightarrow>
   push h s = h\<lparr>redoStack := [],
               undoStack := (if int (length (undoStack h)) + 1 > maxSize h
                             then tl (undoStack h @ [s]) else undoStack h @ [s])\<rparr>"
  by (simp add: push_def Let_def deepClone_state_same)

lemma push_all_window:
  "\<not> isApplying h \<Longrightarrow> 0 \<le> maxSize h \<Longrightarrow> int (length (undoStack h)) \<le> maxSize h \<Longrightarrow>
   undoStack (push_all h ss) =
     drop (length (undoStack h @ ss) - nat (maxSize h)) (undoStack h @ ss)
   \<and> maxSize (push_all h ss) = maxSize h \<and> \<not> isApplying (push_all h ss)"
proof (induction ss arbitrary: h)
  case Nil
  then show ?case by (simp add: push_all_def)
next
  case (Cons s ss)
  let ?h = "push h s"
  have na: "\<not> isApplying ?h" and ms: "maxSize ?h = maxSize h"
    using Cons.prems by (simp_all add: push_not_applying)
  show ?case
  proof (cases "int (length (undoStack h)) + 1 > maxSize h")
    case True
    then have full: "length (undoStack h) = nat (maxSize h)"
      using Cons.prems by linarith
    have us: "undoStack ?h = tl (undoStack h @ [s])"
      using Cons.prems True by (simp add: push_not_applying)
    have len: "length (undoStack ?h) = nat (maxSize h)"
      using us full by simp
    have ih: "undoStack (push_all ?h ss) =
        drop (length (undoStack ?h @ ss) - nat (maxSize ?h)) (undoStack ?h @ ss)
        \<and> maxSize (push_all ?h ss) = maxSize ?h \<and> \<not> isApplying (push_all ?h ss)"
      using Cons.IH [of ?h] na ms Cons.prems len by simp
    have shape: "tl (undoStack h @ [s]) @ ss = tl (undoStack h @ s # ss)"
      by (cases "undoStack h") simp_all
    have "drop (length (undoStack ?h @ ss) - nat (maxSize h)) (undoStack ?h @ ss)
        = drop (length ss) (tl (undoStack h @ [s]) @ ss)"
      using len us by simp
    also have "\<dots> = drop (length ss) (tl (undoStack h @ s # ss))"
      by (simp only: shape)
    also have "\<dots> = drop (Suc (length ss)) (undoStack h @ s # ss)"
      by (simp only: drop_Suc)
    also have "\<dots> = drop (length (undoStack h @ s # ss) - nat (maxSize h)) (undoStack h @ s # ss)"
      using full by simp
    finally show ?thesis
      using ih ms by (simp add: push_all_def)
  next
    case False
    have us: "undoStack ?h = undoStack h @ [s]"
      using Cons.prems False by (simp add: push_not_applying)
    have len: "int (length (undoStack ?h)) \<le> maxSize ?h"
      using us False ms by simp
    have ih: "undoStack (push_all ?h ss) =
        drop (length (undoStack ?h @ ss) - nat (maxSize ?h)) (undoStack ?h @ ss)
        \<and> maxSize (push_all ?h ss) = maxSize ?h \<and> \<not> isApplying (push_all ?h ss)"
      using Cons.IH [of ?h] na ms Cons.prems len by simp
    then show ?thesis
      using us ms by (simp add: push_all_def)
  qed
qed

text \<open>
  Claim C2. Whenever the undo stack is not empty, \<open>undo(s)\<close> immediately followed by
  \<open>redo()\<close> returns a state, and that state is exactly \<open>s\<close>, the state before the undo.
\<close>

theorem undo_then_redo_restores:
  "undoStack h \<noteq> [] \<Longrightarrow> fst (redo (snd (undo h s))) = Some s"
  by (simp add: undo_def redo_def Let_def deepClone_state_same)

theorem undo_then_redo_restores_witness:
  "undoStack (push (new_HistoryManager 100) \<lparr>hs_objects = [JNum 1], hs_selectedIds = []\<rparr>) \<noteq> []
   \<and> fst (redo (snd (undo (push (new_HistoryManager 100) \<lparr>hs_objects = [JNum 1], hs_selectedIds = []\<rparr>)
                         \<lparr>hs_objects = [JObj [(''id'', JStr ''a'')]], hs_selectedIds = [''a'']\<rparr>)))
     = Some \<lparr>hs_objects = [JObj [(''id'', JStr ''a'')]], hs_selectedIds = [''a'']\<rparr>"
proof -
  have ne: "undoStack (push (new_HistoryManager 100) \<lparr>hs_objects = [JNum 1], hs_selectedIds = []\<rparr>) \<noteq> []"
    by (simp add: push_def new_HistoryManager_def Let_def)
  show ?thesis
    using ne undo_then_redo_restores [OF ne] by simp
qed

text \<open>
  Claim C3. Starting from an empty manager of capacity \<open>maxSize\<close> (a count, so not
  negative) and pushing \<open>maxSize + k\<close> states with \<open>k \<ge> 1\<close>, the undo stack holds
  exactly \<open>maxSize\<close> entries: the last \<open>maxSize\<close> states pushed, the first \<open>k\<close> having been
  evicted from the front.
\<close>

theorem push_beyond_capacity:
  assumes "1 \<le> k" and "0 \<le> m" and "length ss = nat m + k"
  shows "undoStack (push_all (new_HistoryManager m) ss) = drop k ss
         \<and> int (length (undoStack (push_all (new_HistoryManager m) ss))) = m"
proof -
  have "undoStack (push_all (new_HistoryManager m) ss) =
        drop (length (undoStack (new_HistoryManager m) @ ss) - nat (maxSize (new_HistoryManager m)))
             (undoStack (new_HistoryManager m) @ ss)"
    using push_all_window [of "new_HistoryManager m" ss] assms
    by (simp add: new_HistoryManager_def)
  then have "undoStack (push_all (new_HistoryManager m) ss) = drop k ss"
    using assms by (simp add: new_HistoryManager_def)
  then show ?thesis using assms by simp
qed

theorem push_beyond_capacity_witness:
  "undoStack (push_all (new_HistoryManager 2)
      [\<lparr>hs_objects = [JNum 1], hs_selectedIds = []\<rparr>,
       \<lparr>hs_objects = [JNum 2], hs_selectedIds = []\<rparr>,
       \<lparr>hs_objects = [JNum 3], hs_selectedIds = []\<rparr>])
   = [\<lparr>hs_objects = [JNum 2], hs_selectedIds = []\<rparr>,
      \<lparr>hs_objects = [JNum 3], hs_selectedIds = []\<rparr>]"
  using push_beyond_capacity [of 1 2
      "[\<lparr>hs_objects = [JNum 1], hs_selectedIds = []\<rparr>,
        \<lparr>hs_objects = [JNum 2], hs_selectedIds = []\<rparr>,
        \<lparr>hs_objects = [JNum 3], hs_selectedIds = []\<rparr>]"]
  by simp

text \<open>
  Claim C4. While the applying flag is set, in particular right after \<open>beginApply\<close>,
  \<open>push\<close> returns the manager as it was: both stacks, the capacity and the flag are
  unchanged.
\<close>

theorem push_dropped_while_applying:
  "push (beginApply h) s = beginApply h \<and> (isApplying h \<longrightarrow> push h s = h)"
  by (simp add: push_def beginApply_def)

theorem push_dropped_while_applying_witness:
  "isApplying (beginApply (new_HistoryManager 100))
   \<and> push (beginApply (new_HistoryManager 100)) \<lparr>hs_objects = [JNum 1], hs_selectedIds = []\<rparr>
     = beginApply (new_HistoryManager 100)"
  using push_dropped_while_applying
    [of "beginApply (new_HistoryManager 100)" "\<lparr>hs_objects = [JNum 1], hs_selectedIds = []\<rparr>"]
  by (simp add: beginApply_def)


section \<open>Evaluating the constructors\<close>

lemma capitalize_types:
  "capitalize ''rectangle'' = ''Rectangle''"
  "capitalize ''ellipse'' = ''Ellipse''"
  "capitalize ''line'' = ''Line''"
  "capitalize ''text'' = ''Text''"
  "capitalize ''frame'' = ''Frame''"
  "capitalize ''path'' = ''Path''"
  "capitalize ''group'' = ''Group''"
  "capitalize ''image'' = ''Image''"
  "capitalize ''component'' = ''Component''"
  "capitalize ''componentInstance'' = ''ComponentInstance''"
  by code_simp+

lemma toUpperCase_initials:
  "toUpperCase CHR ''r'' = CHR ''R''"
  "toUpperCase CHR ''e'' = CHR ''E''"
  "toUpperCase CHR ''l'' = CHR ''L''"
  "toUpperCase CHR ''t'' = CHR ''T''"
  "toUpperCase CHR ''f'' = CHR ''F''"
  "toUpperCase CHR ''p'' = CHR ''P''"
  "toUpperCase CHR ''g'' = CHR ''G''"
  "toUpperCase CHR ''i'' = CHR ''I''"
  "toUpperCase CHR ''c'' = CHR ''C''"
  by code_simp+

lemmas js_ops = or_num_def or_str_def or_bool_def or_nstr_def or_null_def defined_or_def
  nullish_def or_zero_def

lemmas ctor_defs = new_DesignObject_def new_Rectangle_def new_Ellipse_def new_Line_def
  new_TextObject_def new_Path_def new_ImageObject_def new_ComponentInstance_def new_Unknown_def
  no_fields_def generateId_def capitalize_types toUpperCase_initials Gradient_deserialize_def Shadow_deserialize_def
  Constraints_deserialize_def AutoLayout_deserialize_def new_Gradient_def new_Shadow_def
  new_Constraints_def new_AutoLayout_def List.map_filter_simps

section \<open>Lines: bounds\<close>

text \<open>
  Claim C7, as the code has it by design. The bounds of a \<open>Line\<close> with endpoints
  \<open>(x1, y1)\<close> and \<open>(x2, y2)\<close> are \<open>x = min(x1, x2)\<close>, \<open>y = min(y1, y2)\<close>,
  \<open>width = |x2 - x1|\<close> and \<open>height = |y2 - y1|\<close>, except that a width or height of zero
  is reported as \<open>1\<close>; they depend on the endpoints only, whatever the line stores
  besides.
\<close>

theorem Line_bounds_from_endpoints:
  "bounds (Line a b x1 y1 x2 y2) =
     \<lparr>rect_x = min x1 x2, rect_y = min y1 y2,
      rect_width = (if x1 = x2 then 1 else \<bar>x2 - x1\<bar>),
      rect_height = (if y1 = y2 then 1 else \<bar>y2 - y1\<bar>)\<rparr>"
  by (auto simp: Line_bounds_def Let_def or_zero_def min_def max_def)

text \<open>
  Claim C7 as stated fails for a vertical line: the line from \<open>(5, 0)\<close> to \<open>(5, 10)\<close> has
  \<open>|x2 - x1| = 0\<close>, and its bounds have width \<open>1\<close>.
\<close>

theorem Line_bounds_counterexample:
  "rect_width (bounds (fst (new_Line ((no_fields ''line'')
       \<lparr>d_x1 := Some 5, d_y1 := Some 0, d_x2 := Some 5, d_y2 := Some 10\<rparr>) (sconst ''obj_1''))))
     = 1
   \<and> \<bar>(5::real) - 5\<bar> = 0"
  by (simp add: ctor_defs js_ops Line_bounds_def)

text \<open>
  The other half of the claim, that writing \<open>x\<close>, \<open>y\<close>, \<open>width\<close> or \<open>height\<close> moves or
  rescales the endpoints, is what the accessors of \<open>Line\<close> are written to do. They are
  not reached: the four are fields of the object, a read gives what was stored (for a
  new line what the base constructor stored, \<open>100\<close> for an absent width), and an
  assignment leaves the endpoints and the bounds as they are.
\<close>

lemma Line_fields_stored:
  "get_width (fst (new_Line ((no_fields ''line'')
       \<lparr>d_x1 := Some 5, d_y1 := Some 0, d_x2 := Some 5, d_y2 := Some 10\<rparr>) (sconst ''obj_1'')))
     = 100"
  "set_x v (Line a b x1 y1 x2 y2) = Line a (b\<lparr>rect_x := v\<rparr>) x1 y1 x2 y2"
  "set_y v (Line a b x1 y1 x2 y2) = Line a (b\<lparr>rect_y := v\<rparr>) x1 y1 x2 y2"
  "set_width v (Line a b x1 y1 x2 y2) = Line a (b\<lparr>rect_width := v\<rparr>) x1 y1 x2 y2"
  "set_height v (Line a b x1 y1 x2 y2) = Line a (b\<lparr>rect_height := v\<rparr>) x1 y1 x2 y2"
  "bounds (set_width 60 (Line a b 0 0 30 40)) = bounds (Line a b 0 0 30 40)"
  by (simp_all add: ctor_defs js_ops get_width_def set_x_def set_y_def set_width_def
        set_height_def)

section \<open>Auto layout\<close>

text \<open>
  Claim C8. For a horizontal auto layout with hug sizing on the primary axis, spacing
  \<open>10\<close> and the four paddings zero, applied to a frame with three children of widths
  \<open>20\<close>, \<open>30\<close> and \<open>40\<close>, the frame's width becomes \<open>110\<close>; the children may be of any
  class, and the alignment and the sizing of the counter axis do not matter.
\<close>

theorem hug_frame_width:
  assumes "direction al = Horizontal" and "primaryAxisSizing al = Hug" and "spacing al = 10"
    and "paddingLeft al = 0" and "paddingRight al = 0"
    and "paddingTop al = 0" and "paddingBottom al = 0"
    and "get_width c1 = 20" and "get_width c2 = 30" and "get_width c3 = 40"
  shows "get_width (AutoLayout_apply al (Frame a b ff [c1, c2, c3])) = 110"
  using assms by (simp add: Let_def split_beta get_width_def)

theorem hug_frame_width_witness:
  "get_width
     (AutoLayout_apply
        (new_AutoLayout \<lparr>ald_direction = Some Horizontal, ald_primaryAxisAlign = None,
           ald_counterAxisAlign = None, ald_spacing = Some 10, ald_paddingTop = Some 0,
           ald_paddingRight = Some 0, ald_paddingBottom = Some 0, ald_paddingLeft = Some 0,
           ald_primaryAxisSizing = Some Hug, ald_counterAxisSizing = None\<rparr>)
        (fst (new_Frame (\<lambda>r. None)
           (Data (no_fields ''frame'')
              (Some [Data ((no_fields ''rectangle'')\<lparr>d_width := Some 20\<rparr>) None,
                     Data ((no_fields ''rectangle'')\<lparr>d_width := Some 30\<rparr>) None,
                     Data ((no_fields ''rectangle'')\<lparr>d_width := Some 40\<rparr>) None]))
           (sconst ''obj_1'')))) = 110"
proof -
  have "\<exists>a b ff c1 c2 c3.
      fst (new_Frame (\<lambda>r. None)
           (Data (no_fields ''frame'')
              (Some [Data ((no_fields ''rectangle'')\<lparr>d_width := Some 20\<rparr>) None,
                     Data ((no_fields ''rectangle'')\<lparr>d_width := Some 30\<rparr>) None,
                     Data ((no_fields ''rectangle'')\<lparr>d_width := Some 40\<rparr>) None]))
           (sconst ''obj_1'')) = Frame a b ff [c1, c2, c3]
      \<and> get_width c1 = 20 \<and> get_width c2 = 30 \<and> get_width c3 = 40"
    by (simp add: ctor_defs js_ops get_width_def)
  then obtain a b ff c1 c2 c3 where
    fr: "fst (new_Frame (\<lambda>r. None)
           (Data (no_fields ''frame'')
              (Some [Data ((no_fields ''rectangle'')\<lparr>d_width := Some 20\<rparr>) None,
                     Data ((no_fields ''rectangle'')\<lparr>d_width := Some 30\<rparr>) None,
                     Data ((no_fields ''rectangle'')\<lparr>d_width := Some 40\<rparr>) None]))
           (sconst ''obj_1'')) = Frame a b ff [c1, c2, c3]"
    and w: "get_width c1 = 20" "get_width c2 = 30" "get_width c3 = 40"
    by blast
  show ?thesis
    unfolding fr
    by (rule hug_frame_width [OF _ _ _ _ _ _ _ w]) (simp_all add: new_AutoLayout_def js_ops)
qed

section \<open>Round trip through \<open>serialize\<close> and \<open>deserialize\<close>\<close>

lemma new_Gradient_serialize:
  "canonical_Gradient gr \<Longrightarrow> new_Gradient (Gradient_serialize gr) = gr"
  by (simp add: new_Gradient_def Gradient_serialize_def canonical_Gradient_def
      or_num_def defined_or_def)

lemma new_Shadow_serialize:
  "canonical_Shadow sh \<Longrightarrow> new_Shadow (Shadow_serialize sh) = sh"
  by (simp add: new_Shadow_def Shadow_serialize_def canonical_Shadow_def
      or_num_def or_str_def defined_or_def)

lemma new_Constraints_serialize: "new_Constraints (Constraints_serialize c) = c"
  by (simp add: new_Constraints_def Constraints_serialize_def or_num_def defined_or_def)

lemma new_AutoLayout_serialize:
  "spacing al \<noteq> 0 \<Longrightarrow> new_AutoLayout (AutoLayout_serialize al) = al"
  by (simp add: new_AutoLayout_def AutoLayout_serialize_def or_num_def defined_or_def)

lemma shadows_roundtrip:
  "list_all canonical_Shadow ss \<Longrightarrow>
   List.map_filter (\<lambda>s. Shadow_deserialize (Some s)) (map Shadow_serialize ss) = ss"
  by (induction ss) (simp_all add: List.map_filter_simps Shadow_deserialize_def new_Shadow_serialize)

lemma new_DesignObject_variant_fields:
  "new_DesignObject ty (options\<lparr>d_cornerRadius := v1\<rparr>) g = new_DesignObject ty options g"
  "new_DesignObject ty (options\<lparr>d_x1 := v2\<rparr>) g = new_DesignObject ty options g"
  "new_DesignObject ty (options\<lparr>d_y1 := v2\<rparr>) g = new_DesignObject ty options g"
  "new_DesignObject ty (options\<lparr>d_x2 := v2\<rparr>) g = new_DesignObject ty options g"
  "new_DesignObject ty (options\<lparr>d_y2 := v2\<rparr>) g = new_DesignObject ty options g"
  "new_DesignObject ty (options\<lparr>d_text := v3\<rparr>) g = new_DesignObject ty options g"
  "new_DesignObject ty (options\<lparr>d_fontFamily := v3\<rparr>) g = new_DesignObject ty options g"
  "new_DesignObject ty (options\<lparr>d_fontSize := v2\<rparr>) g = new_DesignObject ty options g"
  "new_DesignObject ty (options\<lparr>d_fontWeight := v3\<rparr>) g = new_DesignObject ty options g"
  "new_DesignObject ty (options\<lparr>d_lineHeight := v2\<rparr>) g = new_DesignObject ty options g"
  "new_DesignObject ty (options\<lparr>d_textAlign := v3\<rparr>) g = new_DesignObject ty options g"
  "new_DesignObject ty (options\<lparr>d_clipContent := v4\<rparr>) g = new_DesignObject ty options g"
  "new_DesignObject ty (options\<lparr>d_autoLayout := v5\<rparr>) g = new_DesignObject ty options g"
  "new_DesignObject ty (options\<lparr>d_points := v6\<rparr>) g = new_DesignObject ty options g"
  "new_DesignObject ty (options\<lparr>d_closed := v4\<rparr>) g = new_DesignObject ty options g"
  "new_DesignObject ty (options\<lparr>d_componentId := v3\<rparr>) g = new_DesignObject ty options g"
  "new_DesignObject ty (options\<lparr>d_description := v3\<rparr>) g = new_DesignObject ty options g"
  "new_DesignObject ty (options\<lparr>d_overrides := v7\<rparr>) g = new_DesignObject ty options g"
  "new_DesignObject ty (options\<lparr>d_masterComponent := v8\<rparr>) g = new_DesignObject ty options g"
  "new_DesignObject ty (options\<lparr>d_src := v3\<rparr>) g = new_DesignObject ty options g"
  "new_DesignObject ty (options\<lparr>d_imageData := v9\<rparr>) g = new_DesignObject ty options g"
  "new_DesignObject ty (options\<lparr>d_fit := v10\<rparr>) g = new_DesignObject ty options g"
  by (simp_all add: new_DesignObject_def)

lemma new_DesignObject_serialize_base:
  assumes "canonical_Attrs a"
  shows "new_DesignObject ty (serialize_base ty' a b) g =
           ((a, \<lparr>rect_x = rect_x b, rect_y = rect_y b,
                 rect_width = or_zero (rect_width b) 100,
                 rect_height = or_zero (rect_height b) 100\<rparr>), g)"
proof -
  have gr: "\<And>gr. gradient a = Some gr \<Longrightarrow> new_Gradient (Gradient_serialize gr) = gr"
    using assms by (simp add: canonical_Attrs_def new_Gradient_serialize)
  have sh: "List.map_filter (\<lambda>s. Shadow_deserialize (Some s)) (map Shadow_serialize (shadows a))
            = shadows a"
    using assms by (simp add: canonical_Attrs_def shadows_roundtrip)
  have st: "or_null (Some (stroke a)) = stroke a"
    using assms by (cases "stroke a") (simp_all add: or_null_def canonical_Attrs_def)
  have lk: "or_bool (Some (locked a)) False = locked a"
    by (simp add: or_bool_def)
  have nm: "or_str (Some (obj_name a)) (capitalize ty) = obj_name a"
    and bm: "or_str (Some (blendMode a)) ''normal'' = blendMode a"
    and idn: "obj_id a \<noteq> []"
    using assms by (simp_all add: or_str_def canonical_Attrs_def)
  show ?thesis
    by (cases "gradient a"; cases "constraints a")
       (simp_all add: new_DesignObject_def serialize_base_def no_fields_def Let_def
          gr sh st lk nm bm idn or_num_def or_zero_def defined_or_def
          Gradient_deserialize_def Constraints_deserialize_def new_Constraints_serialize)
qed

lemma foldl_Group_addChild:
  "foldl Group_addChild (Group a b xs) cs =
     Group a (if cs = [] then b else children_bounds (xs @ cs)) (xs @ cs)"
proof (induction cs arbitrary: b xs)
  case Nil
  then show ?case by simp
next
  case (Cons c cs)
  show ?case by (simp add: Cons.IH)
qed

lemma foldl_Component_addChild:
  "foldl Component_addChild (Component a b cf xs) cs = Component a b cf (xs @ cs)"
  by (induction cs arbitrary: xs) simp_all

lemma foldl_Frame_addChild_plain:
  "autoLayout ff = None \<Longrightarrow>
   foldl Frame_addChild (Frame a b ff xs) cs = Frame a b ff (xs @ cs)"
  by (induction cs arbitrary: xs) simp_all

lemma deserialize_children_roundtrip:
  assumes "\<And>c g. c \<in> set cs \<Longrightarrow> canonical c \<Longrightarrow>
             deserialize st (serialize c) g = (without_links c, g)"
    and "list_all canonical cs"
  shows "deserialize_children st (map serialize cs) g = (map without_links cs, g)"
  using assms by (induction cs arbitrary: g) simp_all

text \<open>Clearing the references changes neither the geometry of an object nor what the
  layout does with it.\<close>

lemma box_of_without_links [simp]: "box_of (without_links c) = box_of c"
  by (cases c) simp_all

lemma bounds_without_links [simp]: "bounds (without_links c) = bounds c"
  by (cases c) simp_all

lemma update_box_without_links: "update_box f (without_links c) = without_links (update_box f c)"
  by (cases c) simp_all

lemma get_without_links [simp]:
  "get_x (without_links c) = get_x c" "get_y (without_links c) = get_y c"
  "get_width (without_links c) = get_width c" "get_height (without_links c) = get_height c"
  by (simp_all add: get_x_def get_y_def get_width_def get_height_def)

lemma set_without_links:
  "set_x v (without_links c) = without_links (set_x v c)"
  "set_y v (without_links c) = without_links (set_y v c)"
  "set_width v (without_links c) = without_links (set_width v c)"
  "set_height v (without_links c) = without_links (set_height v c)"
  by (simp_all add: set_x_def set_y_def set_width_def set_height_def update_box_without_links)

lemma children_bounds_without_links [simp]:
  "children_bounds (map without_links cs) = children_bounds cs"
  by (simp add: children_bounds_def comp_def)

lemma measure_children_without_links [simp]:
  "measure_children h acc (map without_links cs) = measure_children h acc cs"
  by (induction h acc cs rule: measure_children.induct) simp_all

lemma place_children_without_links:
  "place_children al fr m pos (map without_links cs)
   = map without_links (place_children al fr m pos cs)"
proof (induction cs arbitrary: pos)
  case Nil
  then show ?case by simp
next
  case (Cons c cs)
  show ?case
    by (cases "counterAxisAlign al")
       (simp_all add: Let_def Cons.IH set_without_links)
qed

lemma AutoLayout_apply_without_links:
  "AutoLayout_apply al (Frame a b ff (map without_links cs))
   = without_links (AutoLayout_apply al (Frame a b ff cs))"
  by (simp add: Let_def split_beta place_children_without_links)

lemma Frame_addChild_without_links:
  "Frame_addChild (without_links f) (without_links c) = without_links (Frame_addChild f c)"
proof (cases f)
  case (Frame a b ff cs)
  have "AutoLayout_apply al (Frame a b ff (map without_links cs @ [without_links c]))
        = without_links (AutoLayout_apply al (Frame a b ff (cs @ [c])))" for al
    using AutoLayout_apply_without_links [of al a b ff "cs @ [c]"] by simp
  then show ?thesis
    using Frame by (cases "autoLayout ff") simp_all
qed simp_all

lemma foldl_Frame_addChild_without_links:
  "foldl Frame_addChild (without_links f) (map without_links cs)
   = without_links (foldl Frame_addChild f cs)"
  by (induction cs arbitrary: f) (simp_all add: Frame_addChild_without_links)

lemma d_type_serialize_base [simp]: "d_type (serialize_base ty a b) = ty"
  by (simp add: serialize_base_def no_fields_def)

lemma canonical_box_or_zero:
  "canonical_box b \<Longrightarrow>
   \<lparr>rect_x = rect_x b, rect_y = rect_y b, rect_width = or_zero (rect_width b) w,
    rect_height = or_zero (rect_height b) h\<rparr> = b"
  by (simp add: canonical_box_def or_zero_def)

lemma variant_fields_of_base:
  "d_cornerRadius (serialize_base ty a b) = None"
  "d_x (serialize_base ty a b) = Some (rect_x b)"
  "d_y (serialize_base ty a b) = Some (rect_y b)"
  "d_width (serialize_base ty a b) = Some (rect_width b)"
  "d_height (serialize_base ty a b) = Some (rect_height b)"
  "d_fill (serialize_base ty a b) = Some (fill a)"
  "d_stroke (serialize_base ty a b) = Some (stroke a)"
  "d_strokeWidth (serialize_base ty a b) = Some (strokeWidth a)"
  "d_points (serialize_base ty a b) = None"
  "d_closed (serialize_base ty a b) = None"
  "d_masterComponent (serialize_base ty a b) = None"
  "d_overrides (serialize_base ty a b) = None"
  "d_componentId (serialize_base ty a b) = None"
  "d_autoLayout (serialize_base ty a b) = None"
  "d_clipContent (serialize_base ty a b) = None"
  by (simp_all add: serialize_base_def no_fields_def)

lemma roundtrip_Rectangle:
  "canonical (Rectangle a b cr) \<Longrightarrow> deserialize st (serialize (Rectangle a b cr)) g = (Rectangle a b cr, g)"
  by (simp add: new_Rectangle_def new_DesignObject_variant_fields
        new_DesignObject_serialize_base canonical_box_or_zero or_num_def)

lemmas rt_simps = new_DesignObject_variant_fields new_DesignObject_serialize_base
  canonical_box_or_zero variant_fields_of_base

lemma roundtrip_Ellipse:
  "canonical (Ellipse a b) \<Longrightarrow> deserialize st (serialize (Ellipse a b)) g = (Ellipse a b, g)"
  by (simp add: new_Ellipse_def rt_simps)

lemma roundtrip_Line:
  assumes "canonical (Line a b x1 y1 x2 y2)"
  shows "deserialize st (serialize (Line a b x1 y1 x2 y2)) g = (Line a b x1 y1 x2 y2, g)"
proof -
  obtain s where s: "stroke a = Some s" "s \<noteq> []"
    using assms by (cases "stroke a") (auto simp: canonical_Attrs_def)
  have "a\<lparr>fill := None, stroke := Some (or_nstr (Some (stroke a)) ''#000000''),
          strokeWidth := or_num (Some (strokeWidth a)) 2\<rparr> = a"
    using assms s by (simp add: or_nstr_def or_num_def)
  then show ?thesis
    using assms by (simp add: new_Line_def rt_simps nullish_def)
qed

lemma roundtrip_TextObject:
  "canonical (TextObject a b tf) \<Longrightarrow>
   deserialize st (serialize (TextObject a b tf)) g = (TextObject a b tf, g)"
  by (simp add: new_TextObject_def rt_simps or_num_def or_str_def canonical_box_def)

lemma roundtrip_Path:
  assumes "canonical (Path a b pf)"
  shows "deserialize st (serialize (Path a b pf)) g = (Path a b pf, g)"
proof -
  have "Path_updateBounds \<lparr>points = points pf, closed_flag = closed_flag pf,
               p_x = 0, p_y = 0, p_width = 1, p_height = 1\<rparr>
        = Path_updateBounds (pf\<lparr>p_x := 0, p_y := 0, p_width := 1, p_height := 1\<rparr>)"
    by (cases pf) simp
  also have "\<dots> = pf"
    using assms by simp
  finally have upd: "Path_updateBounds \<lparr>points = points pf, closed_flag = closed_flag pf,
               p_x = 0, p_y = 0, p_width = 1, p_height = 1\<rparr> = pf" .
  have cl: "or_bool (Some (closed_flag pf)) False = closed_flag pf"
    by (simp add: or_bool_def)
  show ?thesis
    using assms by (simp add: new_Path_def rt_simps defined_or_def cl upd)
qed

lemma roundtrip_ImageObject:
  assumes "canonical (ImageObject a b imf)"
  shows "deserialize st (serialize (ImageObject a b imf)) g = (ImageObject a b imf, g)"
proof -
  have "or_null (Some (imageData imf)) = imageData imf"
    using assms by (cases "imageData imf") (simp_all add: or_null_def)
  then show ?thesis
    using assms by (simp add: new_ImageObject_def rt_simps defined_or_def or_num_def or_str_def)
qed

lemma roundtrip_ComponentInstance:
  assumes "canonical (ComponentInstance a b ci)"
  shows "deserialize st (serialize (ComponentInstance a b ci)) g
         = (ComponentInstance a b (ci\<lparr>masterComponent := None\<rparr>), g)"
proof -
  have "\<lparr>in_componentId = or_str (Some (in_componentId ci)) [], masterComponent = None,
         overrides = overrides ci, in_cornerRadius = in_cornerRadius ci\<rparr>
        = ci\<lparr>masterComponent := None\<rparr>"
    by (cases ci) (simp add: or_str_def)
  then show ?thesis
    using assms
    by (simp add: new_ComponentInstance_def rt_simps defined_or_def or_num_def)
qed

lemma roundtrip_Unknown:
  "canonical (Unknown ty a b) \<Longrightarrow>
   deserialize st (serialize (Unknown ty a b)) g = (Unknown ty a b, g)"
  by (simp add: new_Unknown_def rt_simps known_types_def)

lemma roundtrip_Frame:
  assumes ch: "deserialize_children st (map serialize cs) g = (map without_links cs, g)"
    and can: "canonical (Frame a b ff cs)"
  shows "deserialize st (serialize (Frame a b ff cs)) g = (Frame a b ff (map without_links cs), g)"
proof -
  obtain f where f: "fill a = Some f" "f \<noteq> []"
    using can by (cases "fill a") auto
  have fa: "a\<lparr>fill := Some (or_nstr (Some (fill a)) ''#FFFFFF'')\<rparr> = a"
    using f by (simp add: or_nstr_def)
  show ?thesis
  proof (cases "autoLayout ff")
    case None
    then have ff: "\<lparr>fr_clipContent = fr_clipContent ff, fr_cornerRadius = fr_cornerRadius ff,
               autoLayout = None\<rparr> = ff"
      by (cases ff) simp
    show ?thesis
      using can ch None
      by (simp add: rt_simps defined_or_def or_num_def fa ff foldl_Frame_addChild_plain)
  next
    case (Some al)
    then have ff: "\<lparr>fr_clipContent = fr_clipContent ff, fr_cornerRadius = fr_cornerRadius ff,
               autoLayout = Some al\<rparr> = ff"
      by (cases ff) simp
    have "foldl Frame_addChild (Frame a b ff []) cs = Frame a b ff cs"
      and sp: "spacing al \<noteq> 0"
      using can Some by simp_all
    then have fold: "foldl Frame_addChild (Frame a b ff []) (map without_links cs)
                     = Frame a b ff (map without_links cs)"
      using foldl_Frame_addChild_without_links [of "Frame a b ff []" cs] by simp
    show ?thesis
      using can ch Some
      by (simp add: rt_simps defined_or_def or_num_def fa ff fold
            AutoLayout_deserialize_def new_AutoLayout_serialize [OF sp])
  qed
qed

lemma roundtrip_Group:
  assumes ch: "deserialize_children st (map serialize cs) g = (map without_links cs, g)"
    and can: "canonical (Group a b cs)"
  shows "deserialize st (serialize (Group a b cs)) g = (Group a b (map without_links cs), g)"
proof -
  have fa: "a\<lparr>fill := None\<rparr> = a"
    using can by simp
  show ?thesis
  proof (cases "cs = []")
    case True
    then show ?thesis using can ch by (simp add: rt_simps fa)
  next
    case False
    have bx: "children_bounds cs = b" using can False by simp
    show ?thesis
      using can ch False by (simp add: rt_simps fa foldl_Group_addChild bx)
  qed
qed

lemma roundtrip_Component:
  assumes ch: "deserialize_children st (map serialize cs) g = (map without_links cs, g)"
    and can: "canonical (Component a b cf cs)"
  shows "deserialize st (serialize (Component a b cf cs)) g
         = (Component a b (cf\<lparr>instances := []\<rparr>) (map without_links cs), g)"
proof -
  obtain f where f: "fill a = Some f" "f \<noteq> []"
    using can by (cases "fill a") auto
  have fa: "a\<lparr>fill := Some (or_nstr (Some (fill a)) ''#FFFFFF'')\<rparr> = a"
    using f by (simp add: or_nstr_def)
  have cf: "\<lparr>cm_clipContent = cm_clipContent cf, cm_cornerRadius = cm_cornerRadius cf,
             componentId = componentId cf, description = description cf, instances = []\<rparr>
            = cf\<lparr>instances := []\<rparr>"
    by (cases cf) simp
  show ?thesis
    using can ch
    by (simp add: rt_simps defined_or_def or_num_def or_str_def fa cf foldl_Component_addChild)
qed

text \<open>
  Claim C1, as the code has it. For every class, \<open>deserialize(serialize(x))\<close> is \<open>x\<close>
  again, children and gradient, shadow, constraint and layout sub-objects included, but
  for the references that \<open>serialize\<close> does not write (every instance in it comes back
  with \<open>masterComponent = null\<close>, every component with no \<open>instances\<close>), and
  generates no identifier, provided \<open>x\<close> and its descendants are \<open>canonical\<close>: no field
  holds a value that the constructor reading it replaces, the bounds of a \<open>Group\<close> with
  children and the private bounds of a \<open>Path\<close> are up to date, and a \<open>Frame\<close> with auto
  layout is laid out as adding its children one by one lays it out.
\<close>

theorem roundtrip_canonical:
  "canonical x \<Longrightarrow> deserialize st (serialize x) g = (without_links x, g)"
proof (induction x arbitrary: g)
  case (Frame a b ff cs)
  have "deserialize_children st (map serialize cs) g = (map without_links cs, g)"
    using Frame by (intro deserialize_children_roundtrip) simp_all
  then show ?case using Frame.prems by (simp only: roundtrip_Frame without_links.simps)
next
  case (Group a b cs)
  have "deserialize_children st (map serialize cs) g = (map without_links cs, g)"
    using Group by (intro deserialize_children_roundtrip) simp_all
  then show ?case using Group.prems by (simp only: roundtrip_Group without_links.simps)
next
  case (Component a b cf cs)
  have "deserialize_children st (map serialize cs) g = (map without_links cs, g)"
    using Component by (intro deserialize_children_roundtrip) simp_all
  then show ?case using Component.prems by (simp only: roundtrip_Component without_links.simps)
next
  case (ComponentInstance a b ci)
  then show ?case by (simp only: roundtrip_ComponentInstance without_links.simps)
qed (simp_all only: roundtrip_Rectangle roundtrip_Ellipse roundtrip_Line roundtrip_TextObject
      roundtrip_Path roundtrip_ImageObject roundtrip_Unknown without_links.simps)

text \<open>The witness is a group of an auto-layout frame (holding a rectangle with a
  gradient and a shadow, and an ellipse), a line, and an instance that \<open>createInstance\<close>
  has linked to its master: the group comes back with the instance unlinked.\<close>

theorem roundtrip_canonical_witness:
  "canonical
    (Group_addChild
      (fst (deserialize (\<lambda>r. None)
        (Data ((no_fields ''group'')\<lparr>d_id := Some ''g1''\<rparr>)
           (Some [Data ((no_fields ''frame'')
                          \<lparr>d_id := Some ''f1'',
                           d_autoLayout := Some (Some \<lparr>ald_direction = None,
                              ald_primaryAxisAlign = None, ald_counterAxisAlign = None,
                              ald_spacing = None, ald_paddingTop = None, ald_paddingRight = None,
                              ald_paddingBottom = None, ald_paddingLeft = None,
                              ald_primaryAxisSizing = None, ald_counterAxisSizing = None\<rparr>)\<rparr>)
                    (Some [Data ((no_fields ''rectangle'')
                          \<lparr>d_id := Some ''r1'', d_width := Some 20, d_height := Some 10,
                           d_gradient := Some (Some \<lparr>gd_type = Some Radial, gd_angle = None,
                              gd_stops = None, gd_centerX = None, gd_centerY = None,
                              gd_radiusX = None, gd_radiusY = None\<rparr>),
                           d_shadows := Some [\<lparr>sd_type = None, sd_color = None,
                              sd_offsetX = None, sd_offsetY = None, sd_blur = None,
                              sd_spread = None, sd_visible = None\<rparr>]\<rparr>) None,
                         Data ((no_fields ''ellipse'')
                          \<lparr>d_id := Some ''e1'', d_width := Some 30\<rparr>) None]),
                  Data ((no_fields ''line'')
                          \<lparr>d_id := Some ''l1'', d_x1 := Some 0, d_y1 := Some 0,
                           d_x2 := Some 30, d_y2 := Some 40\<rparr>) None]))
        (sconst ''obj_1'')))
      (fst (fst (Component_createInstance (\<lambda>r. None) 1 2 None None
         (fst (new_Component (\<lambda>r. None) (Data (no_fields ''component'') None)
            (sconst ''obj_1'')))
         (sconst ''obj_2'')))))
   \<and> deserialize (\<lambda>r. None) (serialize
    (Group_addChild
      (fst (deserialize (\<lambda>r. None)
        (Data ((no_fields ''group'')\<lparr>d_id := Some ''g1''\<rparr>)
           (Some [Data ((no_fields ''frame'')
                          \<lparr>d_id := Some ''f1'',
                           d_autoLayout := Some (Some \<lparr>ald_direction = None,
                              ald_primaryAxisAlign = None, ald_counterAxisAlign = None,
                              ald_spacing = None, ald_paddingTop = None, ald_paddingRight = None,
                              ald_paddingBottom = None, ald_paddingLeft = None,
                              ald_primaryAxisSizing = None, ald_counterAxisSizing = None\<rparr>)\<rparr>)
                    (Some [Data ((no_fields ''rectangle'')
                          \<lparr>d_id := Some ''r1'', d_width := Some 20, d_height := Some 10,
                           d_gradient := Some (Some \<lparr>gd_type = Some Radial, gd_angle = None,
                              gd_stops = None, gd_centerX = None, gd_centerY = None,
                              gd_radiusX = None, gd_radiusY = None\<rparr>),
                           d_shadows := Some [\<lparr>sd_type = None, sd_color = None,
                              sd_offsetX = None, sd_offsetY = None, sd_blur = None,
                              sd_spread = None, sd_visible = None\<rparr>]\<rparr>) None,
                         Data ((no_fields ''ellipse'')
                          \<lparr>d_id := Some ''e1'', d_width := Some 30\<rparr>) None]),
                  Data ((no_fields ''line'')
                          \<lparr>d_id := Some ''l1'', d_x1 := Some 0, d_y1 := Some 0,
                           d_x2 := Some 30, d_y2 := Some 40\<rparr>) None]))
        (sconst ''obj_1'')))
      (fst (fst (Component_createInstance (\<lambda>r. None) 1 2 None None
         (fst (new_Component (\<lambda>r. None) (Data (no_fields ''component'') None)
            (sconst ''obj_1'')))
         (sconst ''obj_2'')))))) (sconst ''obj_3'')
     = (without_links
    (Group_addChild
      (fst (deserialize (\<lambda>r. None)
        (Data ((no_fields ''group'')\<lparr>d_id := Some ''g1''\<rparr>)
           (Some [Data ((no_fields ''frame'')
                          \<lparr>d_id := Some ''f1'',
                           d_autoLayout := Some (Some \<lparr>ald_direction = None,
                              ald_primaryAxisAlign = None, ald_counterAxisAlign = None,
                              ald_spacing = None, ald_paddingTop = None, ald_paddingRight = None,
                              ald_paddingBottom = None, ald_paddingLeft = None,
                              ald_primaryAxisSizing = None, ald_counterAxisSizing = None\<rparr>)\<rparr>)
                    (Some [Data ((no_fields ''rectangle'')
                          \<lparr>d_id := Some ''r1'', d_width := Some 20, d_height := Some 10,
                           d_gradient := Some (Some \<lparr>gd_type = Some Radial, gd_angle = None,
                              gd_stops = None, gd_centerX = None, gd_centerY = None,
                              gd_radiusX = None, gd_radiusY = None\<rparr>),
                           d_shadows := Some [\<lparr>sd_type = None, sd_color = None,
                              sd_offsetX = None, sd_offsetY = None, sd_blur = None,
                              sd_spread = None, sd_visible = None\<rparr>]\<rparr>) None,
                         Data ((no_fields ''ellipse'')
                          \<lparr>d_id := Some ''e1'', d_width := Some 30\<rparr>) None]),
                  Data ((no_fields ''line'')
                          \<lparr>d_id := Some ''l1'', d_x1 := Some 0, d_y1 := Some 0,
                           d_x2 := Some 30, d_y2 := Some 40\<rparr>) None]))
        (sconst ''obj_1'')))
      (fst (fst (Component_createInstance (\<lambda>r. None) 1 2 None None
         (fst (new_Component (\<lambda>r. None) (Data (no_fields ''component'') None)
            (sconst ''obj_1'')))
         (sconst ''obj_2''))))), sconst ''obj_3'')
   \<and> without_links
    (Group_addChild
      (fst (deserialize (\<lambda>r. None)
        (Data ((no_fields ''group'')\<lparr>d_id := Some ''g1''\<rparr>)
           (Some [Data ((no_fields ''frame'')
                          \<lparr>d_id := Some ''f1'',
                           d_autoLayout := Some (Some \<lparr>ald_direction = None,
                              ald_primaryAxisAlign = None, ald_counterAxisAlign = None,
                              ald_spacing = None, ald_paddingTop = None, ald_paddingRight = None,
                              ald_paddingBottom = None, ald_paddingLeft = None,
                              ald_primaryAxisSizing = None, ald_counterAxisSizing = None\<rparr>)\<rparr>)
                    (Some [Data ((no_fields ''rectangle'')
                          \<lparr>d_id := Some ''r1'', d_width := Some 20, d_height := Some 10,
                           d_gradient := Some (Some \<lparr>gd_type = Some Radial, gd_angle = None,
                              gd_stops = None, gd_centerX = None, gd_centerY = None,
                              gd_radiusX = None, gd_radiusY = None\<rparr>),
                           d_shadows := Some [\<lparr>sd_type = None, sd_color = None,
                              sd_offsetX = None, sd_offsetY = None, sd_blur = None,
                              sd_spread = None, sd_visible = None\<rparr>]\<rparr>) None,
                         Data ((no_fields ''ellipse'')
                          \<lparr>d_id := Some ''e1'', d_width := Some 30\<rparr>) None]),
                  Data ((no_fields ''line'')
                          \<lparr>d_id := Some ''l1'', d_x1 := Some 0, d_y1 := Some 0,
                           d_x2 := Some 30, d_y2 := Some 40\<rparr>) None]))
        (sconst ''obj_1'')))
      (fst (fst (Component_createInstance (\<lambda>r. None) 1 2 None None
         (fst (new_Component (\<lambda>r. None) (Data (no_fields ''component'') None)
            (sconst ''obj_1'')))
         (sconst ''obj_2'')))))
     \<noteq>
    (Group_addChild
      (fst (deserialize (\<lambda>r. None)
        (Data ((no_fields ''group'')\<lparr>d_id := Some ''g1''\<rparr>)
           (Some [Data ((no_fields ''frame'')
                          \<lparr>d_id := Some ''f1'',
                           d_autoLayout := Some (Some \<lparr>ald_direction = None,
                              ald_primaryAxisAlign = None, ald_counterAxisAlign = None,
                              ald_spacing = None, ald_paddingTop = None, ald_paddingRight = None,
                              ald_paddingBottom = None, ald_paddingLeft = None,
                              ald_primaryAxisSizing = None, ald_counterAxisSizing = None\<rparr>)\<rparr>)
                    (Some [Data ((no_fields ''rectangle'')
                          \<lparr>d_id := Some ''r1'', d_width := Some 20, d_height := Some 10,
                           d_gradient := Some (Some \<lparr>gd_type = Some Radial, gd_angle = None,
                              gd_stops = None, gd_centerX = None, gd_centerY = None,
                              gd_radiusX = None, gd_radiusY = None\<rparr>),
                           d_shadows := Some [\<lparr>sd_type = None, sd_color = None,
                              sd_offsetX = None, sd_offsetY = None, sd_blur = None,
                              sd_spread = None, sd_visible = None\<rparr>]\<rparr>) None,
                         Data ((no_fields ''ellipse'')
                          \<lparr>d_id := Some ''e1'', d_width := Some 30\<rparr>) None]),
                  Data ((no_fields ''line'')
                          \<lparr>d_id := Some ''l1'', d_x1 := Some 0, d_y1 := Some 0,
                           d_x2 := Some 30, d_y2 := Some 40\<rparr>) None]))
        (sconst ''obj_1'')))
      (fst (fst (Component_createInstance (\<lambda>r. None) 1 2 None None
         (fst (new_Component (\<lambda>r. None) (Data (no_fields ''component'') None)
            (sconst ''obj_1'')))
         (sconst ''obj_2'')))))"
  by (intro conjI roundtrip_canonical)
     (simp_all add: ctor_defs js_ops canonical_Attrs_def canonical_Gradient_def
        canonical_Shadow_def canonical_box_def children_bounds_def min_of_def max_of_def
        Line_bounds_def Let_def get_width_def get_height_def get_x_def get_y_def
        set_x_def set_y_def set_width_def set_height_def overridden_def)

text \<open>
  Claim C1 as stated fails. A group that was moved (\<open>x\<close> assigned, as
  \<open>duplicateSelection\<close> does with a clone) comes back at the position of its children:
  the constructor recomputes the bounds. An instance linked to its master by
  \<open>createInstance\<close> comes back with \<open>masterComponent = null\<close>: \<open>serialize\<close> writes the
  \<open>componentId\<close> only.
\<close>

theorem roundtrip_counterexample:
  "get_x (set_x 50 (fst (deserialize (\<lambda>r. None)
        (Data ((no_fields ''group'')\<lparr>d_id := Some ''g1''\<rparr>)
           (Some [Data ((no_fields ''rectangle'')\<lparr>d_id := Some ''r1''\<rparr>) None]))
        (sconst ''obj_1'')))) = 50
   \<and> get_x (fst (deserialize (\<lambda>r. None)
        (serialize (set_x 50 (fst (deserialize (\<lambda>r. None)
           (Data ((no_fields ''group'')\<lparr>d_id := Some ''g1''\<rparr>)
              (Some [Data ((no_fields ''rectangle'')\<lparr>d_id := Some ''r1''\<rparr>) None]))
           (sconst ''obj_1'')))))
        (sconst ''obj_2''))) = 0
   \<and> (case fst (fst (Component_createInstance (\<lambda>r. None) 1 2 None None
              (fst (new_Component (\<lambda>r. None) (Data (no_fields ''component'') None)
                 (sconst ''obj_1'')))
              (sconst ''obj_2''))) of
        ComponentInstance a b ci \<Rightarrow>
          masterComponent ci = Some 1
          \<and> (case fst (deserialize ((\<lambda>r. None)(1 \<mapsto> fst (new_Component (\<lambda>r. None)
                          (Data (no_fields ''component'') None) (sconst ''obj_1''))))
                     (serialize (ComponentInstance a b ci)) (sconst ''obj_3'')) of
               ComponentInstance a' b' ci' \<Rightarrow> masterComponent ci' = None
             | _ \<Rightarrow> False)
      | _ \<Rightarrow> False)"
  by (simp add: ctor_defs js_ops get_x_def set_x_def serialize_base_def children_bounds_def min_of_def
        max_of_def overridden_def)

section \<open>Rotation\<close>

lemma attrs_of_AutoLayout_apply [simp]:
  "attrs_of (AutoLayout_apply al obj) = attrs_of obj"
  by (cases obj) (simp_all add: Let_def split_beta)

lemma attrs_Frame_addChild [simp]: "attrs_of (Frame_addChild this c) = attrs_of this"
  by (cases this) (simp_all add: Let_def split_beta split: option.splits)

lemma attrs_Group_addChild [simp]: "attrs_of (Group_addChild this c) = attrs_of this"
  by (cases this) simp_all

lemma attrs_Component_addChild [simp]: "attrs_of (Component_addChild this c) = attrs_of this"
  by (cases this) simp_all

lemma attrs_foldl_Frame: "attrs_of (foldl Frame_addChild this cs) = attrs_of this"
  by (induction cs arbitrary: this) simp_all

lemma attrs_foldl_Group: "attrs_of (foldl Group_addChild this cs) = attrs_of this"
  by (induction cs arbitrary: this) simp_all

lemma attrs_foldl_Component: "attrs_of (foldl Component_addChild this cs) = attrs_of this"
  by (induction cs arbitrary: this) simp_all

lemma rotation_new_DesignObject:
  "rotation (fst (fst (new_DesignObject ty options g))) = or_num (d_rotation options) 0"
  by (simp add: new_DesignObject_def split_beta)

lemma rotation_syncFromMaster [simp]:
  "rotation (attrs_of (syncFromMaster st obj)) = rotation (attrs_of obj)"
  by (cases obj) (simp_all split: option.splits DesignObject.splits)

lemma or_num_zero: "or_num v 0 = (case v of None \<Rightarrow> 0 | Some r \<Rightarrow> r)"
  by (simp add: or_num_def split: option.splits)

lemma rotation_leaf_constructors:
  "rotation (attrs_of (fst (new_Rectangle options g))) = or_num (d_rotation options) 0"
  "rotation (attrs_of (fst (new_Ellipse options g))) = or_num (d_rotation options) 0"
  "rotation (attrs_of (fst (new_Line options g))) = or_num (d_rotation options) 0"
  "rotation (attrs_of (fst (new_TextObject options g))) = or_num (d_rotation options) 0"
  "rotation (attrs_of (fst (new_Path options g))) = or_num (d_rotation options) 0"
  "rotation (attrs_of (fst (new_ImageObject options g))) = or_num (d_rotation options) 0"
  "rotation (attrs_of (fst (new_ComponentInstance st options g))) = or_num (d_rotation options) 0"
  "rotation (attrs_of (fst (new_Unknown ty options g))) = or_num (d_rotation options) 0"
  by (simp_all add: new_Rectangle_def new_Ellipse_def new_Line_def new_TextObject_def
        new_Path_def new_ImageObject_def new_ComponentInstance_def new_Unknown_def
        split_beta Let_def rotation_new_DesignObject del: syncFromMaster.simps)

lemma rotation_container_constructors:
  "rotation (attrs_of (fst (new_Frame st (Data options kids) g))) = or_num (d_rotation options) 0"
  "rotation (attrs_of (fst (new_Group st (Data options kids) g))) = or_num (d_rotation options) 0"
  "rotation (attrs_of (fst (new_Component st (Data options kids) g))) = or_num (d_rotation options) 0"
  by (simp_all add: split_beta Let_def attrs_foldl_Frame attrs_foldl_Group attrs_foldl_Component
        rotation_new_DesignObject split: option.splits)

lemma rotation_deserialize:
  "rotation (attrs_of (fst (deserialize st (Data options kids) g))) =
     (case d_rotation options of None \<Rightarrow> 0 | Some r \<Rightarrow> r)"
  by (simp add: rotation_leaf_constructors rotation_container_constructors or_num_zero
        del: new_Frame.simps new_Group.simps new_Component.simps)

lemma atan2_bounds: "- pi < atan2 y x \<and> atan2 y x \<le> pi"
proof -
  have lo: "- (pi / 2) < arctan (y / x)" and hi: "arctan (y / x) < pi / 2"
    by (rule arctan_lbound, rule arctan_ubound)
  have neg: "arctan (y / x) \<le> 0" if "x < 0" "0 \<le> y"
    using that by (simp add: divide_nonneg_neg arctan_le_zero_iff)
  have pos: "0 < arctan (y / x)" if "x < 0" "y < 0"
    using that by (simp add: divide_neg_neg zero_less_arctan_iff)
  consider "0 < x" | "x < 0" "0 \<le> y" | "x < 0" "y < 0" | "x = 0" "0 < y" | "x = 0" "y < 0"
    | "x = 0" "y = 0"
    by linarith
  then show ?thesis
  proof cases
    case 1
    then have "atan2 y x = arctan (y / x)" by (simp add: atan2_def)
    then show ?thesis using lo hi pi_gt_zero by linarith
  next
    case 2
    then have "atan2 y x = arctan (y / x) + pi" by (simp add: atan2_def)
    then show ?thesis using lo neg [OF 2] pi_gt_zero by linarith
  next
    case 3
    then have "atan2 y x = arctan (y / x) - pi" by (simp add: atan2_def)
    then show ?thesis using hi pos [OF 3] pi_gt_zero by linarith
  next
    case 4
    then have "atan2 y x = pi / 2" by (simp add: atan2_def)
    then show ?thesis using pi_gt_zero by linarith
  next
    case 5
    then have "atan2 y x = - (pi / 2)" by (simp add: atan2_def)
    then show ?thesis using pi_gt_zero by linarith
  next
    case 6
    then have "atan2 y x = 0" by (simp add: atan2_def)
    then show ?thesis using pi_gt_zero by linarith
  qed
qed

lemma rotation_drag_range:
  "- 90 \<le> rotation (attrs_of (SelectTool_rotate c p shiftKey obj))
   \<and> rotation (attrs_of (SelectTool_rotate c p shiftKey obj)) \<le> 270"
proof -
  define ang where "ang = getAngle (pt_x c) (pt_y c) (pt_x p) (pt_y p)"
  have b: "- pi < ang" "ang \<le> pi"
    using atan2_bounds by (simp_all add: ang_def getAngle_def)
  have d: "- 180 < radToDeg ang" "radToDeg ang \<le> 180"
    using b pi_gt_zero by (simp_all add: radToDeg_def field_simps)
  define r where "r = radToDeg ang + 90"
  have r: "- 90 < r" "r \<le> 270" using d by (simp_all add: r_def)
  have fl: "- 6 \<le> \<lfloor>r / 15 + 1 / 2\<rfloor>" "\<lfloor>r / 15 + 1 / 2\<rfloor> \<le> 18"
    using r by (simp_all add: le_floor_iff floor_le_iff) 
  have "real_of_int (- 6) \<le> real_of_int \<lfloor>r / 15 + 1 / 2\<rfloor>"
    "real_of_int \<lfloor>r / 15 + 1 / 2\<rfloor> \<le> real_of_int 18"
    using fl by (simp_all only: of_int_le_iff)
  then have rr: "- 90 \<le> Math_round (r / 15) * 15" "Math_round (r / 15) * 15 \<le> 270"
    unfolding Math_round_def by simp_all
  have "rotation (attrs_of (SelectTool_rotate c p shiftKey obj)) =
          (if shiftKey then Math_round (r / 15) * 15 else r)"
    by (cases obj) (simp_all add: SelectTool_rotate_def Let_def r_def ang_def)
  then show ?thesis using r rr by simp
qed

text \<open>
  Claim C5, as the code has it. The stored rotation is the assigned value itself, with no
  reduction modulo \<open>360\<close>: an object of any class built from its plain form stores
  \<open>options.rotation\<close> unchanged (\<open>0\<close> when absent), and a drag of the rotation handle
  stores \<open>radToDeg(atan2(dy, dx)) + 90\<close>, rounded to a multiple of \<open>15\<close> while shift is
  held, which is a value between \<open>-90\<close> and \<open>270\<close>.
\<close>

theorem rotation_stored_unreduced:
  "rotation (attrs_of (fst (deserialize st (Data options kids) g))) =
     (case d_rotation options of None \<Rightarrow> 0 | Some r \<Rightarrow> r)
   \<and> rotation (attrs_of (SelectTool_rotate rotateCenter pos shiftKey obj)) =
       (if shiftKey
        then Math_round ((radToDeg (getAngle (pt_x rotateCenter) (pt_y rotateCenter)
                                      (pt_x pos) (pt_y pos)) + 90) / 15) * 15
        else radToDeg (getAngle (pt_x rotateCenter) (pt_y rotateCenter) (pt_x pos) (pt_y pos)) + 90)
   \<and> - 90 \<le> rotation (attrs_of (SelectTool_rotate rotateCenter pos shiftKey obj))
   \<and> rotation (attrs_of (SelectTool_rotate rotateCenter pos shiftKey obj)) \<le> 270"
proof -
  have "rotation (attrs_of (SelectTool_rotate rotateCenter pos shiftKey obj)) =
       (if shiftKey
        then Math_round ((radToDeg (getAngle (pt_x rotateCenter) (pt_y rotateCenter)
                                      (pt_x pos) (pt_y pos)) + 90) / 15) * 15
        else radToDeg (getAngle (pt_x rotateCenter) (pt_y rotateCenter) (pt_x pos) (pt_y pos)) + 90)"
    by (cases obj) (simp_all add: SelectTool_rotate_def Let_def)
  then show ?thesis
    using rotation_deserialize [of st options kids g]
      rotation_drag_range [of rotateCenter pos shiftKey obj]
    by simp
qed

text \<open>
  Claim C5 as stated fails: a rectangle built with \<open>rotation: 450\<close> stores \<open>450\<close>, and
  dragging the handle to the upper left of the centre stores \<open>-45\<close>.
\<close>

theorem rotation_counterexample:
  "rotation (attrs_of (fst (deserialize (\<lambda>r. None)
      (Data ((no_fields ''rectangle'')\<lparr>d_rotation := Some 450\<rparr>) None) (sconst ''obj_1'')))) = 450
   \<and> rotation (attrs_of (SelectTool_rotate \<lparr>pt_x = 0, pt_y = 0\<rparr> \<lparr>pt_x = - 1, pt_y = - 1\<rparr> False
        (fst (new_Rectangle (no_fields ''rectangle'') (sconst ''obj_1''))))) = - 45"
proof -
  have "atan2 (- 1) (- 1) = pi / 4 - pi"
    by (simp add: atan2_def arctan_one)
  then show ?thesis
    using pi_gt_zero
    by (simp add: ctor_defs js_ops SelectTool_rotate_def getAngle_def radToDeg_def Let_def
          field_simps)
qed

section \<open>Cloning an instance\<close>

text \<open>
  \<open>clone\<close> is inherited from the base class: it rebuilds the object from its serialized
  form, which for an instance carries the \<open>componentId\<close> and not the reference to the
  master. So the clone of any \<open>ComponentInstance\<close> is a \<open>ComponentInstance\<close> with a
  freshly generated \<open>id\<close> (the next one the generator delivers), the name followed by
  \<open>' Copy'\<close>, the \<open>componentId\<close> of the original, and \<open>masterComponent = null\<close>.
\<close>

lemma clone_of_instance:
  "(case clone st (ComponentInstance a b ci) g of
      Inr (ComponentInstance a' b' ci', g') \<Rightarrow>
        masterComponent ci' = None
        \<and> in_componentId ci' = in_componentId ci
        \<and> obj_id a' = shd (if obj_id a = [] then stl g else g)
        \<and> obj_name a' = obj_name a @ '' Copy''
    | _ \<Rightarrow> False)"
  by (simp add: clone_def new_ComponentInstance_def new_DesignObject_variant_fields
        new_DesignObject_def serialize_base_def no_fields_def generateId_def Let_def
        split_beta or_str_def)

text \<open>
  Claim C6: the clone of an instance linked to a master still points at the same master
  and carries a fresh id. The code does not keep the link. The instance below is made by
  \<open>createInstance\<close> of a component stored at address \<open>1\<close>, so its \<open>masterComponent\<close>
  is that component; its clone has a \<open>masterComponent\<close> that is not.
\<close>

theorem clone_drops_master_link:
  "(case fst (fst (Component_createInstance (\<lambda>r. None) 1 2 None None
              (fst (new_Component (\<lambda>r. None) (Data (no_fields ''component'') None)
                 (sconst ''obj_1'')))
              (sconst ''obj_2''))) of
      ComponentInstance a b ci \<Rightarrow>
        masterComponent ci = Some 1
        \<and> (case clone ((\<lambda>r. None)(1 \<mapsto> fst (new_Component (\<lambda>r. None)
                          (Data (no_fields ''component'') None) (sconst ''obj_1''))))
                   (ComponentInstance a b ci) (sconst ''obj_3'') of
             Inr (ComponentInstance a' b' ci', g') \<Rightarrow> masterComponent ci' \<noteq> Some 1
           | _ \<Rightarrow> False)
    | _ \<Rightarrow> False)"
  by (simp add: ctor_defs js_ops clone_def serialize_base_def Let_def overridden_def)

section \<open>Boolean operations\<close>

text \<open>
  Claim C9. Whatever the operation, when the selection does not hold exactly two objects,
  or holds two of which one has a type other than \<open>rectangle\<close>, \<open>ellipse\<close> or \<open>path\<close>,
  \<open>performOperation\<close> returns \<open>null\<close> after one warning and leaves the application as
  it was: the document, the selection and the history are unchanged, no identifier is
  generated and no exception is raised.
\<close>

theorem invalid_selection_is_noop:
  "(length (selectedObjects app) \<noteq> 2 \<longrightarrow>
      performOperation app operation g =
        Inr (None, [''Boolean operations require exactly 2 selected objects''], app, g))
   \<and> (selectedObjects app = [obj1, obj2]
        \<and> (type_of obj1 \<notin> set validTypes \<or> type_of obj2 \<notin> set validTypes) \<longrightarrow>
      performOperation app operation g =
        Inr (None, [''Boolean operations only work with rectangles, ellipses, and paths''],
             app, g))"
  by (auto simp: performOperation_def Let_def)

theorem invalid_selection_is_noop_witness:
  "performOperation
     \<lparr>app_objects = [fst (new_Rectangle (no_fields ''rectangle'') (sconst ''obj_1''))],
      selectedObjects = [fst (new_Rectangle (no_fields ''rectangle'') (sconst ''obj_1''))],
      history = new_HistoryManager 100\<rparr> ''union'' (sconst ''obj_2'')
   = Inr (None, [''Boolean operations require exactly 2 selected objects''],
      \<lparr>app_objects = [fst (new_Rectangle (no_fields ''rectangle'') (sconst ''obj_1''))],
       selectedObjects = [fst (new_Rectangle (no_fields ''rectangle'') (sconst ''obj_1''))],
       history = new_HistoryManager 100\<rparr>, sconst ''obj_2'')
   \<and> performOperation
     \<lparr>app_objects = [],
      selectedObjects = [fst (new_Rectangle (no_fields ''rectangle'') (sconst ''obj_1'')),
                         fst (new_TextObject (no_fields ''text'') (sconst ''obj_3''))],
      history = new_HistoryManager 100\<rparr> ''subtract'' (sconst ''obj_2'')
   = Inr (None, [''Boolean operations only work with rectangles, ellipses, and paths''],
      \<lparr>app_objects = [],
       selectedObjects = [fst (new_Rectangle (no_fields ''rectangle'') (sconst ''obj_1'')),
                          fst (new_TextObject (no_fields ''text'') (sconst ''obj_3''))],
       history = new_HistoryManager 100\<rparr>, sconst ''obj_2'')"
  using invalid_selection_is_noop
     [of "\<lparr>app_objects = [fst (new_Rectangle (no_fields ''rectangle'') (sconst ''obj_1''))],
      selectedObjects = [fst (new_Rectangle (no_fields ''rectangle'') (sconst ''obj_1''))],
      history = new_HistoryManager 100\<rparr>" "''union''" "sconst ''obj_2''"]
    invalid_selection_is_noop
     [of "\<lparr>app_objects = [],
      selectedObjects = [fst (new_Rectangle (no_fields ''rectangle'') (sconst ''obj_1'')),
                         fst (new_TextObject (no_fields ''text'') (sconst ''obj_3''))],
      history = new_HistoryManager 100\<rparr>" "''subtract''" "sconst ''obj_2''"
      "fst (new_Rectangle (no_fields ''rectangle'') (sconst ''obj_1''))"
      "fst (new_TextObject (no_fields ''text'') (sconst ''obj_3''))"]
  by (simp add: new_TextObject_def new_Rectangle_def split_beta validTypes_def)

lemma atan2_vals:
  "atan2 0 1 = 0" "atan2 1 1 = pi / 4" "atan2 1 0 = pi / 2" "atan2 (1/2) (1/2) = pi / 4"
  by (simp_all add: atan2_def arctan_one)

lemma lower_trans: "lower p q \<Longrightarrow> lower q r \<Longrightarrow> lower p r"
  by (auto simp: lower_def)

lemma find_lowest_min:
  "lowest < i \<Longrightarrow> i \<le> length pts \<Longrightarrow> (\<forall>j<i. \<not> lower (pts ! j) (pts ! lowest)) \<Longrightarrow>
   find_lowest pts lowest i < length pts
   \<and> (\<forall>j<length pts. \<not> lower (pts ! j) (pts ! find_lowest pts lowest i))"
proof (induction pts lowest i rule: find_lowest.induct)
  case (1 pts lowest i)
  show ?case
  proof (cases "i < length pts")
    case False
    then show ?thesis using "1.prems" by (subst find_lowest.simps) simp
  next
    case True
    let ?l = "if lower (pts ! i) (pts ! lowest) then i else lowest"
    have inv: "\<forall>j<i + 1. \<not> lower (pts ! j) (pts ! ?l)"
    proof (intro allI impI)
      fix j assume "j < i + 1"
      then consider "j < i" | "j = i" by linarith
      then show "\<not> lower (pts ! j) (pts ! ?l)"
      proof cases
        case 1
        then show ?thesis using "1.prems"(3) lower_trans by auto
      next
        case 2
        then show ?thesis by (auto simp: lower_def)
      qed
    qed
    have "find_lowest pts ?l (i + 1) < length pts
      \<and> (\<forall>j<length pts. \<not> lower (pts ! j) (pts ! find_lowest pts ?l (i + 1)))"
      using "1.IH" [OF True] True "1.prems" inv
      by (auto simp: lower_def simp del: find_lowest.simps)
    moreover have "find_lowest pts lowest i = find_lowest pts ?l (i + 1)"
      using True by (subst find_lowest.simps) (simp add: lower_def del: find_lowest.simps)
    ultimately show ?thesis by simp
  qed
qed


lemma square_keys:
  fixes x0 y0 :: real
  defines "P0 \<equiv> \<lparr>pt_x = x0, pt_y = y0\<rparr>"
    and "A \<equiv> \<lparr>pt_x = x0 + 1, pt_y = y0\<rparr>"
    and "B \<equiv> \<lparr>pt_x = x0 + 1, pt_y = y0 + 1\<rparr>"
    and "D \<equiv> \<lparr>pt_x = x0, pt_y = y0 + 1\<rparr>"
    and "C \<equiv> \<lparr>pt_x = x0 + 1 / 2, pt_y = y0 + 1 / 2\<rparr>"
  defines "key \<equiv> (\<lambda>p. if p = A then 0 else if p = C then 1 else if p = B then 2 else (3::nat))"
  assumes "p \<in> {A, B, C, D}" "q \<in> {A, B, C, D}"
  shows "(polar_compare P0 p q \<le> 0) = (key p \<le> key q)"
proof -
  have pos: "(pi \<le> 0) = False"
    using pi_gt_zero by (simp add: not_le)
  have cases: "p = A \<or> p = B \<or> p = C \<or> p = D" "q = A \<or> q = B \<or> q = C \<or> q = D"
    using assms(7,8) by simp_all
  show ?thesis
    using cases
    unfolding P0_def A_def B_def C_def D_def key_def
    by (elim disjE)
       (simp_all add: polar_compare_def atan2_vals Let_def power2_eq_square pos)
qed

lemma insert_sorted_insort_key:
  assumes "\<And>p q. p \<in> S \<Longrightarrow> q \<in> S \<Longrightarrow> (compare p q \<le> 0) = (key p \<le> key q)"
    and "v \<in> S" and "set ws \<subseteq> S"
  shows "insert_sorted compare v ws = insort_key key v ws"
  using assms(2,3) by (induction ws) (simp_all add: assms(1))

lemma sort_with_sort_key:
  assumes "\<And>p q. p \<in> S \<Longrightarrow> q \<in> S \<Longrightarrow> (compare p q \<le> 0) = (key p \<le> key q)"
    and "set vs \<subseteq> S"
  shows "sort_with compare vs = sort_key key vs"
  using assms(2)
proof (induction vs)
  case Nil
  then show ?case by (simp add: sort_with_def sort_key_def)
next
  case (Cons v vs)
  have "sort_with compare (v # vs) = insert_sorted compare v (sort_with compare vs)"
    by (simp add: sort_with_def)
  also have "\<dots> = insert_sorted compare v (sort_key key vs)"
    using Cons by simp
  also have "\<dots> = insort_key key v (sort_key key vs)"
    using Cons.prems by (intro insert_sorted_insort_key [where S = S] assms(1)) simp_all
  finally show ?case by (simp add: sort_key_def)
qed

lemma filter_single:
  "distinct xs \<Longrightarrow> k \<in> set xs \<Longrightarrow> filter (\<lambda>x. x = k) xs = [k]"
  by (induction xs) (auto simp: filter_empty_conv)


lemma square_sorted_any_order:
  fixes x0 y0 :: real
  assumes m: "mset vs = mset [\<lparr>pt_x = x0 + 1, pt_y = y0\<rparr>, \<lparr>pt_x = x0 + 1, pt_y = y0 + 1\<rparr>,
      \<lparr>pt_x = x0, pt_y = y0 + 1\<rparr>, \<lparr>pt_x = x0 + 1 / 2, pt_y = y0 + 1 / 2\<rparr>]"
  shows "sort_with (polar_compare \<lparr>pt_x = x0, pt_y = y0\<rparr>) vs
   = [\<lparr>pt_x = x0 + 1, pt_y = y0\<rparr>, \<lparr>pt_x = x0 + 1 / 2, pt_y = y0 + 1 / 2\<rparr>,
      \<lparr>pt_x = x0 + 1, pt_y = y0 + 1\<rparr>, \<lparr>pt_x = x0, pt_y = y0 + 1\<rparr>]"
proof -
  define A where "A = \<lparr>pt_x = x0 + 1, pt_y = y0\<rparr>"
  define B where "B = \<lparr>pt_x = x0 + 1, pt_y = y0 + 1\<rparr>"
  define D where "D = \<lparr>pt_x = x0, pt_y = y0 + 1\<rparr>"
  define C where "C = \<lparr>pt_x = x0 + 1 / 2, pt_y = y0 + 1 / 2\<rparr>"
  define key where "key = (\<lambda>p. if p = A then 0 else if p = C then 1 else if p = B then 2 else (3::nat))"
  have ne: "A \<noteq> B" "A \<noteq> C" "A \<noteq> D" "B \<noteq> C" "B \<noteq> D" "C \<noteq> D"
    by (simp_all add: A_def B_def C_def D_def)
  have m': "mset vs = mset [A, B, D, C]"
    using m by (simp add: A_def B_def C_def D_def)
  have st: "set vs = {A, B, C, D}"
    using mset_eq_setD [OF m'] by auto
  have dist: "distinct vs"
    using m' ne by (metis distinct.simps(1,2) empty_iff insert_iff list.set(1,2) mset_eq_imp_distinct_iff)
  have agree: "(polar_compare \<lparr>pt_x = x0, pt_y = y0\<rparr> p q \<le> 0) = (key p \<le> key q)"
    if "p \<in> {A, B, C, D}" "q \<in> {A, B, C, D}" for p q
    using square_keys [of p x0 y0 q] that unfolding A_def B_def C_def D_def key_def by simp
  have "sort_with (polar_compare \<lparr>pt_x = x0, pt_y = y0\<rparr>) vs = sort_key key vs"
    by (rule sort_with_sort_key [where S = "{A, B, C, D}"]) (simp_all add: agree st)
  also have "\<dots> = [A, C, B, D]"
  proof (rule properties_for_sort_key)
    show "mset [A, C, B, D] = mset vs"
      using m' by simp
    show "sorted (map key [A, C, B, D])"
      using ne by (simp add: key_def)
    fix k assume k: "k \<in> set [A, C, B, D]"
    have inj: "(key k = key x) = (x = k)" if "x \<in> {A, B, C, D}" for x
      using that k ne by (auto simp: key_def)
    have "filter (\<lambda>x. key k = key x) vs = filter (\<lambda>x. x = k) vs"
      by (rule filter_cong) (simp_all add: inj st)
    also have "\<dots> = [k]"
      using k by (intro filter_single dist) (auto simp: st)
    finally have r: "filter (\<lambda>x. key k = key x) vs = [k]" .
    have "filter (\<lambda>x. key k = key x) [A, C, B, D] = filter (\<lambda>x. x = k) [A, C, B, D]"
      by (rule filter_cong) (auto simp: inj)
    also have "\<dots> = [k]"
      using k ne by (intro filter_single) auto
    finally show "filter (\<lambda>x. key k = key x) [A, C, B, D] = filter (\<lambda>x. key k = key x) vs"
      using r by simp
  qed
  finally show ?thesis
    by (simp add: A_def B_def C_def D_def)
qed


lemma square_scan:
  fixes x0 y0 :: real
  shows "foldl hull_step [\<lparr>pt_x = x0, pt_y = y0\<rparr>]
     [\<lparr>pt_x = x0 + 1, pt_y = y0\<rparr>, \<lparr>pt_x = x0 + 1 / 2, pt_y = y0 + 1 / 2\<rparr>,
      \<lparr>pt_x = x0 + 1, pt_y = y0 + 1\<rparr>, \<lparr>pt_x = x0, pt_y = y0 + 1\<rparr>]
   = [\<lparr>pt_x = x0, pt_y = y0\<rparr>, \<lparr>pt_x = x0 + 1, pt_y = y0\<rparr>,
      \<lparr>pt_x = x0 + 1, pt_y = y0 + 1\<rparr>, \<lparr>pt_x = x0, pt_y = y0 + 1\<rparr>]"
  apply (simp only: foldl.simps)
  apply (simp add: hull_step_def pop_non_left.simps Let_def)
  done

text \<open>
  Claim C10. The convex hull of the four corners of a unit square and its centre, given
  in any order, is the list of the four corners, counter-clockwise from the lowest left
  one; the centre is not part of it. The square may lie anywhere.
\<close>

theorem hull_unit_square:
  fixes x0 y0 :: real
  assumes m: "mset ps = mset [\<lparr>pt_x = x0, pt_y = y0\<rparr>, \<lparr>pt_x = x0 + 1, pt_y = y0\<rparr>,
      \<lparr>pt_x = x0 + 1, pt_y = y0 + 1\<rparr>, \<lparr>pt_x = x0, pt_y = y0 + 1\<rparr>,
      \<lparr>pt_x = x0 + 1 / 2, pt_y = y0 + 1 / 2\<rparr>]"
  shows "convexHull ps
   = [\<lparr>pt_x = x0, pt_y = y0\<rparr>, \<lparr>pt_x = x0 + 1, pt_y = y0\<rparr>,
      \<lparr>pt_x = x0 + 1, pt_y = y0 + 1\<rparr>, \<lparr>pt_x = x0, pt_y = y0 + 1\<rparr>]"
proof -
  define P0 where "P0 = \<lparr>pt_x = x0, pt_y = y0\<rparr>"
  define r where "r = find_lowest ps 0 1"
  define ps' where "ps' = ps[0 := ps ! r, r := ps ! 0]"
  have len: "length ps = 5"
    using mset_eq_length [OF m] by simp
  have st: "set ps = {P0, \<lparr>pt_x = x0 + 1, pt_y = y0\<rparr>, \<lparr>pt_x = x0 + 1, pt_y = y0 + 1\<rparr>,
      \<lparr>pt_x = x0, pt_y = y0 + 1\<rparr>, \<lparr>pt_x = x0 + 1 / 2, pt_y = y0 + 1 / 2\<rparr>}"
    using mset_eq_setD [OF m] by (simp add: P0_def)
  have low: "lower P0 q" if "q \<in> set ps" "q \<noteq> P0" for q
    using that st by (auto simp: lower_def P0_def)
  have "\<forall>j<1. \<not> lower (ps ! j) (ps ! 0)"
    by (simp add: lower_def)
  then have fl: "r < length ps" "\<forall>j<length ps. \<not> lower (ps ! j) (ps ! r)"
    using find_lowest_min [of 0 1 ps] len by (simp_all add: r_def)
  have pr: "ps ! r = P0"
  proof (rule ccontr)
    assume neq: "ps ! r \<noteq> P0"
    have "P0 \<in> set ps" using st by simp
    then obtain j where j: "j < length ps" "ps ! j = P0"
      by (auto simp: in_set_conv_nth)
    have "lower P0 (ps ! r)"
      using low [of "ps ! r"] fl(1) neq by simp
    then show False using fl(2) j by auto
  qed
  have m': "mset ps' = mset ps"
    unfolding ps'_def using fl(1) len by (intro mset_swap) simp_all
  have hd': "ps' ! 0 = P0"
    using pr len by (cases "r = 0") (simp_all add: ps'_def)
  have len': "length ps' = 5"
    using len by (simp add: ps'_def)
  have split: "ps' = P0 # drop 1 ps'"
    using hd' len' by (cases ps') simp_all
  have "mset ps' = add_mset P0 (mset (drop 1 ps'))"
    by (subst split) simp
  then have rest: "mset (drop 1 ps') = mset [\<lparr>pt_x = x0 + 1, pt_y = y0\<rparr>,
      \<lparr>pt_x = x0 + 1, pt_y = y0 + 1\<rparr>, \<lparr>pt_x = x0, pt_y = y0 + 1\<rparr>,
      \<lparr>pt_x = x0 + 1 / 2, pt_y = y0 + 1 / 2\<rparr>]"
    using m m' by (simp add: P0_def)
  have "convexHull ps = foldl hull_step [P0] (sort_with (polar_compare P0) (drop 1 ps'))"
    using len hd' unfolding convexHull_def Let_def r_def [symmetric] ps'_def [symmetric]
    by (simp del: find_lowest.simps)
  also have "\<dots> = foldl hull_step [P0]
     [\<lparr>pt_x = x0 + 1, pt_y = y0\<rparr>, \<lparr>pt_x = x0 + 1 / 2, pt_y = y0 + 1 / 2\<rparr>,
      \<lparr>pt_x = x0 + 1, pt_y = y0 + 1\<rparr>, \<lparr>pt_x = x0, pt_y = y0 + 1\<rparr>]"
    unfolding P0_def by (simp only: square_sorted_any_order [OF rest])
  finally show ?thesis
    unfolding P0_def by (simp only: square_scan)
qed

theorem hull_unit_square_witness:
  "mset [\<lparr>pt_x = 1 / 2, pt_y = 1 / 2\<rparr>, \<lparr>pt_x = 0, pt_y = 1\<rparr>, \<lparr>pt_x = 1, pt_y = 1\<rparr>,
         \<lparr>pt_x = 1, pt_y = 0\<rparr>, \<lparr>pt_x = 0, pt_y = 0::real\<rparr>]
   = mset [\<lparr>pt_x = 0, pt_y = 0\<rparr>, \<lparr>pt_x = 0 + 1, pt_y = 0\<rparr>,
      \<lparr>pt_x = 0 + 1, pt_y = 0 + 1\<rparr>, \<lparr>pt_x = 0, pt_y = 0 + 1\<rparr>,
      \<lparr>pt_x = 0 + 1 / 2, pt_y = 0 + 1 / 2\<rparr>]
   \<and> convexHull [\<lparr>pt_x = 1 / 2, pt_y = 1 / 2\<rparr>, \<lparr>pt_x = 0, pt_y = 1\<rparr>,
         \<lparr>pt_x = 1, pt_y = 1\<rparr>, \<lparr>pt_x = 1, pt_y = 0\<rparr>, \<lparr>pt_x = 0, pt_y = 0\<rparr>]
   = [\<lparr>pt_x = 0, pt_y = 0\<rparr>, \<lparr>pt_x = 1, pt_y = 0\<rparr>, \<lparr>pt_x = 1, pt_y = 1\<rparr>,
      \<lparr>pt_x = 0, pt_y = 1\<rparr>]"
  using hull_unit_square
    [of "[\<lparr>pt_x = 1 / 2, pt_y = 1 / 2\<rparr>, \<lparr>pt_x = 0, pt_y = 1\<rparr>, \<lparr>pt_x = 1, pt_y = 1\<rparr>,
         \<lparr>pt_x = 1, pt_y = 0\<rparr>, \<lparr>pt_x = 0, pt_y = 0\<rparr>]" 0 0]
  by simp
end
